theory Spec2Isabelle
  imports Complex_Main
begin

section \<open>Data model (convex/schema.ts)\<close>

text \<open>
  Identifiers of the platform (document ids, user ids, storage ids) are opaque; they are
  modelled as natural numbers. A JavaScript \<^verbatim>\<open>Error\<close> is its message. A function that can
  throw returns an \<open>outcome\<close>: \<open>Throw\<close> is the exception, \<open>Ok\<close> the returned value.
\<close>

datatype error = Error string

datatype 'a outcome = Ok 'a | Throw error

text \<open>
  A JavaScript number: a finite value (a real number here, which covers every double),
  \<^verbatim>\<open>NaN\<close>, or one of the two infinities.
\<close>

datatype number = Num real | NaN | PosInfinity | NegInfinity

text \<open>The text that a template literal produces for a thrown \<^verbatim>\<open>Error\<close>.\<close>

fun error_to_string :: "error \<Rightarrow> string" where
  "error_to_string (Error m) = ''Error: '' @ m"

text \<open>Table \<^verbatim>\<open>documents\<close>. The field \<open>doc_id\<close> is the platform's \<^verbatim>\<open>_id\<close>; \<open>keywordList\<close> is the field \<^verbatim>\<open>keywords\<close>.\<close>

record document =
  doc_id :: nat
  userId :: nat
  fileName :: string
  fileType :: string
  fileSize :: nat
  storageId :: nat
  parsedContent :: string
  uploadTime :: nat
  summary :: "string option"
  classification :: "string option"
  keywordList :: "string list option"
  isProcessed :: bool

text \<open>Table \<^verbatim>\<open>documentAnalysis\<close>. The field \<open>analysisUserId\<close> is the table's \<^verbatim>\<open>userId\<close>.\<close>

record analysis =
  analysis_id :: nat
  documentId :: nat
  analysisUserId :: nat
  analysisType :: string
  result :: string
  confidence :: real
  createdAt :: nat

text \<open>
  Every call of \<^verbatim>\<open>ctx.runMutation\<close> and \<^verbatim>\<open>ctx.runAction\<close> made by the two background
  actions is recorded, in order, so that a property such as "the analysis step was not
  invoked" can be stated.
\<close>

datatype call =
    Call_updateParsedContent nat
  | Call_analyzeDocument nat
  | Call_markProcessingFailed nat
  | Call_saveAnalysis nat string
  | Call_updateDocumentAnalysis nat

text \<open>
  The state of the platform: the two tables in creation order, the blob store
  (\<^verbatim>\<open>ctx.storage.getUrl\<close>), the jobs handed to \<^verbatim>\<open>ctx.scheduler.runAfter\<close>, the next
  fresh id, the clock read by \<^verbatim>\<open>Date.now()\<close>, the lines written by \<^verbatim>\<open>console.error\<close>,
  and the recorded calls.
\<close>

record state =
  documents :: "document list"
  documentAnalysis :: "analysis list"
  storage :: "nat \<Rightarrow> string option"
  scheduled :: "nat list"
  next_id :: nat
  now :: nat
  console :: "string list"
  calls :: "call list"

definition init_state :: state where
  "init_state = \<lparr>documents = [], documentAnalysis = [], storage = (\<lambda>_. None),
     scheduled = [], next_id = 0, now = 0, console = [], calls = []\<rparr>"

text \<open>
  The services outside the repository: \<open>fetch url\<close> is \<open>Inr ()\<close> when \<^verbatim>\<open>fetch\<close> and
  \<^verbatim>\<open>arrayBuffer\<close> both return, and \<open>Inl t\<close> when one of them throws a value whose text is
  \<open>t\<close>; \<open>model kind content\<close> is the reply of the AI model, or \<open>Inl t\<close> when the call
  throws; \<open>mutation_fails c\<close> is \<open>Some m\<close> when the platform rejects the write \<open>c\<close> that the
  analysis step issues through \<^verbatim>\<open>ctx.runMutation\<close>, which then throws an error of message
  \<open>m\<close> and writes nothing (a mutation is a transaction), and \<open>None\<close> when the write runs.
\<close>

record env =
  fetch :: "string \<Rightarrow> string + unit"
  model :: "string \<Rightarrow> string \<Rightarrow> string + string"
  mutation_fails :: "call \<Rightarrow> string option"

section \<open>Database primitives\<close>

definition db_get :: "document list \<Rightarrow> nat \<Rightarrow> document option" where
  "db_get docs i = find (\<lambda>d. doc_id d = i) docs"

text \<open>\<^verbatim>\<open>ctx.db.patch\<close> throws when the id names no record.\<close>

definition db_patch :: "nat \<Rightarrow> (document \<Rightarrow> document) \<Rightarrow> state \<Rightarrow> unit outcome \<times> state" where
  "db_patch i f s =
     (case db_get (documents s) i of
        None \<Rightarrow> (Throw (Error ''Update on nonexistent document''), s)
      | Some _ \<Rightarrow>
          (Ok (), s\<lparr>documents := map (\<lambda>d. if doc_id d = i then f d else d) (documents s)\<rparr>))"

definition getUrl :: "state \<Rightarrow> nat \<Rightarrow> string option" where
  "getUrl s sid = storage s sid"

section \<open>convex/documents.ts\<close>

definition saveDocument ::
  "nat option \<Rightarrow> string \<Rightarrow> string \<Rightarrow> nat \<Rightarrow> nat \<Rightarrow> state \<Rightarrow> nat outcome \<times> state" where
  "saveDocument caller fName fType fSize sid s =
     (case caller of
        None \<Rightarrow> (Throw (Error ''Authentication required''), s)
      | Some uid \<Rightarrow>
          (let documentId = next_id s;
               s1 = s\<lparr>documents := documents s @
                        [\<lparr>doc_id = documentId, userId = uid, fileName = fName,
                          fileType = fType, fileSize = fSize, storageId = sid,
                          parsedContent = [], uploadTime = now s, summary = None,
                          classification = None, keywordList = None, isProcessed = False\<rparr>],
                      next_id := Suc (next_id s)\<rparr>;
               s2 = s1\<lparr>scheduled := scheduled s1 @ [documentId]\<rparr>
           in (Ok documentId, s2)))"

text \<open>
  \<^verbatim>\<open>args.limit || 50\<close>: the limit is a JavaScript number (\<^verbatim>\<open>v.number()\<close>), see
  \<open>number\<close>. An absent limit and the falsy limits \<open>0\<close> and \<open>NaN\<close> give 50, any other limit
  is used as it is.
\<close>

definition limit_or_default :: "number option \<Rightarrow> number" where
  "limit_or_default limit =
     (case limit of
        None \<Rightarrow> Num 50
      | Some NaN \<Rightarrow> Num 50
      | Some (Num r) \<Rightarrow> if r = 0 then Num 50 else Num r
      | Some PosInfinity \<Rightarrow> PosInfinity
      | Some NegInfinity \<Rightarrow> NegInfinity)"

text \<open>
  \<^verbatim>\<open>take(n)\<close> of the platform's query interface: the first \<open>n\<close> results when \<open>n\<close> is a
  non-negative integer; for any other number the query throws.
\<close>

definition take_query :: "number \<Rightarrow> 'a list \<Rightarrow> 'a list outcome" where
  "take_query n xs =
     (case n of
        Num r \<Rightarrow>
          if 0 \<le> r \<and> r = real_of_int \<lfloor>r\<rfloor> then Ok (take (nat \<lfloor>r\<rfloor>) xs)
          else Throw (Error ''take: the limit is not a non-negative integer'')
      | NaN \<Rightarrow> Throw (Error ''take: the limit is not a non-negative integer'')
      | PosInfinity \<Rightarrow> Throw (Error ''take: the limit is not a non-negative integer'')
      | NegInfinity \<Rightarrow> Throw (Error ''take: the limit is not a non-negative integer''))"

text \<open>
  The index \<^verbatim>\<open>by_user_and_upload_time\<close> restricted to one user, read in descending
  order: the user's records by upload time, ties in creation order, reversed.
\<close>

definition by_user_and_upload_time_desc :: "nat \<Rightarrow> document list \<Rightarrow> document list" where
  "by_user_and_upload_time_desc uid docs =
     rev (sort_key uploadTime (filter (\<lambda>d. userId d = uid) docs))"

definition getUserDocuments ::
  "nat option \<Rightarrow> number option \<Rightarrow> state \<Rightarrow> (document \<times> string option) list outcome" where
  "getUserDocuments caller limit s =
     (case caller of
        None \<Rightarrow> Throw (Error ''Authentication required'')
      | Some uid \<Rightarrow>
          (case take_query (limit_or_default limit)
                  (by_user_and_upload_time_desc uid (documents s)) of
             Throw err \<Rightarrow> Throw err
           | Ok docs \<Rightarrow> Ok (map (\<lambda>d. (d, getUrl s (storageId d))) docs)))"

definition getDocument ::
  "nat option \<Rightarrow> nat \<Rightarrow> state \<Rightarrow> (document \<times> string option) outcome" where
  "getDocument caller i s =
     (case caller of
        None \<Rightarrow> Throw (Error ''Authentication required'')
      | Some uid \<Rightarrow>
          (case db_get (documents s) i of
             None \<Rightarrow> Throw (Error ''Document not found or access denied'')
           | Some d \<Rightarrow>
               if userId d \<noteq> uid then Throw (Error ''Document not found or access denied'')
               else Ok (d, getUrl s (storageId d))))"

definition db_delete_analysis :: "nat \<Rightarrow> state \<Rightarrow> state" where
  "db_delete_analysis aid s =
     s\<lparr>documentAnalysis := filter (\<lambda>a. analysis_id a \<noteq> aid) (documentAnalysis s)\<rparr>"

text \<open>
  \<^verbatim>\<open>deleteDocument\<close>: \<^verbatim>\<open>ctx.storage.delete\<close> throws when the blob is not in the store, and
  the mutation, being a transaction, then leaves the state as it was.
\<close>

definition deleteDocument :: "nat option \<Rightarrow> nat \<Rightarrow> state \<Rightarrow> bool outcome \<times> state" where
  "deleteDocument caller i s =
     (case caller of
        None \<Rightarrow> (Throw (Error ''Authentication required''), s)
      | Some uid \<Rightarrow>
          (case db_get (documents s) i of
             None \<Rightarrow> (Throw (Error ''Document not found or access denied''), s)
           | Some d \<Rightarrow>
               if userId d \<noteq> uid
               then (Throw (Error ''Document not found or access denied''), s)
               else if storage s (storageId d) = None
               then (Throw (Error ''storage.delete: no such file''), s)
               else
                 (let s1 = s\<lparr>storage := (storage s)(storageId d := None)\<rparr>;
                      s2 = s1\<lparr>documents := filter (\<lambda>x. doc_id x \<noteq> i) (documents s1)\<rparr>;
                      analyses = filter (\<lambda>a. documentId a = i) (documentAnalysis s2);
                      s3 = foldl (\<lambda>t a. db_delete_analysis (analysis_id a) t) s2 analyses
                  in (Ok True, s3))))"

definition pdf_placeholder :: string where
  "pdf_placeholder = ''PDF content extracted (placeholder - implement PDF parser)''"

definition docx_placeholder :: string where
  "docx_placeholder = ''DOCX content extracted (placeholder - implement DOCX parser)''"

text \<open>
  \<^verbatim>\<open>parseDocumentContent\<close>: the fetch comes first, then the test of the declared type;
  whatever is thrown inside is caught and thrown again with its text behind
  \<^verbatim>\<open>Failed to parse document: \<close>.
\<close>

definition parse_try :: "env \<Rightarrow> string \<Rightarrow> string \<Rightarrow> string + string" where
  "parse_try e fileUrl fType =
     (case fetch e fileUrl of
        Inl t \<Rightarrow> Inl t
      | Inr _ \<Rightarrow>
          if fType = ''pdf'' then Inr pdf_placeholder
          else if fType = ''docx'' then Inr docx_placeholder
          else Inl (error_to_string (Error (''Unsupported file type: '' @ fType))))"

definition parseDocumentContent :: "env \<Rightarrow> string \<Rightarrow> string \<Rightarrow> string outcome" where
  "parseDocumentContent e fileUrl fType =
     (case parse_try e fileUrl fType of
        Inl t \<Rightarrow> Throw (Error (''Failed to parse document: '' @ t))
      | Inr text \<Rightarrow> Ok text)"

definition getDocumentForProcessing :: "nat \<Rightarrow> state \<Rightarrow> document option" where
  "getDocumentForProcessing i s = db_get (documents s) i"

definition updateParsedContent :: "nat \<Rightarrow> string \<Rightarrow> state \<Rightarrow> unit outcome \<times> state" where
  "updateParsedContent i content s =
     db_patch i (\<lambda>d. d\<lparr>parsedContent := content, isProcessed := True\<rparr>) s"

definition failure_sentinel :: string where
  "failure_sentinel = ''Processing failed''"

definition markProcessingFailed :: "nat \<Rightarrow> state \<Rightarrow> unit outcome \<times> state" where
  "markProcessingFailed i s =
     db_patch i (\<lambda>d. d\<lparr>isProcessed := False, parsedContent := failure_sentinel\<rparr>) s"

definition saveAnalysis :: "nat \<Rightarrow> nat \<Rightarrow> string \<Rightarrow> string \<Rightarrow> real \<Rightarrow> state \<Rightarrow> state" where
  "saveAnalysis i uid kind res conf s =
     s\<lparr>documentAnalysis := documentAnalysis s @
          [\<lparr>analysis_id = next_id s, documentId = i, analysisUserId = uid,
            analysisType = kind, result = res, confidence = conf, createdAt = now s\<rparr>],
       next_id := Suc (next_id s)\<rparr>"

definition updateDocumentAnalysis ::
  "nat \<Rightarrow> string \<Rightarrow> string \<Rightarrow> string list \<Rightarrow> state \<Rightarrow> unit outcome \<times> state" where
  "updateDocumentAnalysis i summ cls kws s =
     db_patch i (\<lambda>d. d\<lparr>summary := Some summ, classification := Some cls,
                        keywordList := Some kws\<rparr>) s"

text \<open>\<^verbatim>\<open>ctx.runMutation\<close> from an action: the call is recorded, then the mutation runs.\<close>

definition record_call :: "call \<Rightarrow> state \<Rightarrow> state" where
  "record_call c s = s\<lparr>calls := calls s @ [c]\<rparr>"

definition console_error :: "string \<Rightarrow> error \<Rightarrow> state \<Rightarrow> state" where
  "console_error label e s = s\<lparr>console := console s @ [label @ '' '' @ error_to_string e]\<rparr>"

section \<open>convex/ai.ts\<close>

definition getPromptForAnalysisType :: "string \<Rightarrow> string \<Rightarrow> string" where
  "getPromptForAnalysisType kind content =
     (if kind = ''summary'' then
        ''Please provide a concise summary of the following document:''
          @ [CHR 0x0A, CHR 0x0A] @ content
      else if kind = ''classification'' then
        ''Please classify the following document into one of these categories: Legal, Financial, Technical, Marketing, HR, Other:''
          @ [CHR 0x0A, CHR 0x0A] @ content
      else if kind = ''keywords'' then
        ''Please extract the top 10 keywords from the following document (comma-separated):''
          @ [CHR 0x0A, CHR 0x0A] @ content
      else if kind = ''insights'' then
        ''Please provide key insights and important points from the following document:''
          @ [CHR 0x0A, CHR 0x0A] @ content
      else if kind = ''question_answer'' then content
      else if kind = ''comparison'' then
        ''Please compare these two documents and highlight similarities and differences:''
          @ [CHR 0x0A, CHR 0x0A] @ content
      else content)"

definition generateMockResponse :: "string \<Rightarrow> string \<Rightarrow> string" where
  "generateMockResponse kind content =
     (if kind = ''summary'' then
        ''This document contains important information about business processes and procedures. It outlines key strategies and implementation guidelines.''
      else if kind = ''classification'' then ''Business''
      else if kind = ''keywords'' then
        ''business, strategy, implementation, process, guidelines, management, operations, efficiency''
      else if kind = ''insights'' then
        ''Key insights: 1) Focus on operational efficiency, 2) Strategic planning is emphasized, 3) Implementation requires cross-team collaboration''
      else if kind = ''question_answer'' then
        ''Based on the document content, here is the answer to your question...''
      else if kind = ''comparison'' then
        ''Both documents share similar themes but differ in their approach to implementation. Document 1 focuses more on strategy while Document 2 emphasizes execution.''
      else ''Analysis completed successfully.'')"

text \<open>
  \<^verbatim>\<open>analyzeWithAI\<close>: the prompt is built and not used; the reply of the model comes
  back with the confidence 0.85; whatever the call throws is thrown again behind
  \<^verbatim>\<open>AI analysis failed: \<close>. In the repository the model call is
  \<^verbatim>\<open>generateMockResponse\<close>, which never throws: that is the environment \<open>mock_env\<close>, in
  which no write is rejected either.
\<close>

definition analyzeWithAI :: "env \<Rightarrow> string \<Rightarrow> string \<Rightarrow> (string \<times> real) outcome" where
  "analyzeWithAI e content kind =
     (let prompt = getPromptForAnalysisType kind content
      in case model e kind content of
           Inl t \<Rightarrow> Throw (Error (''AI analysis failed: '' @ t))
         | Inr mockResponse \<Rightarrow> Ok (mockResponse, 0.85))"

definition mock_env :: "(string \<Rightarrow> string + unit) \<Rightarrow> env" where
  "mock_env f =
     \<lparr>fetch = f, model = (\<lambda>kind content. Inr (generateMockResponse kind content)),
       mutation_fails = (\<lambda>c. None)\<rparr>"

text \<open>\<^verbatim>\<open>Promise.all\<close>: the list of the values, or the first rejection.\<close>

fun promise_all :: "'a outcome list \<Rightarrow> 'a list outcome" where
  "promise_all [] = Ok []"
| "promise_all (Throw err # rs) = Throw err"
| "promise_all (Ok x # rs) =
     (case promise_all rs of Throw err \<Rightarrow> Throw err | Ok xs \<Rightarrow> Ok (x # xs))"

text \<open>
  \<^verbatim>\<open>s.split(",")\<close> and \<^verbatim>\<open>k.trim()\<close>. A character here is a code unit below 256; the
  white space that \<^verbatim>\<open>trim\<close> strips in this range is tab, line feed, vertical tab, form
  feed, carriage return, space and the no-break space. White space above this range
  cannot occur in a string of the model.
\<close>

fun split_on :: "char \<Rightarrow> string \<Rightarrow> string list" where
  "split_on c [] = [[]]"
| "split_on c (x # xs) =
     (if x = c then [] # split_on c xs
      else (case split_on c xs of [] \<Rightarrow> [[x]] | w # ws \<Rightarrow> (x # w) # ws))"

definition is_space :: "char \<Rightarrow> bool" where
  "is_space c =
     (c \<in> set [CHR 0x09, CHR 0x0A, CHR 0x0B, CHR 0x0C, CHR 0x0D, CHR '' '', CHR 0xA0])"

definition trim :: "string \<Rightarrow> string" where
  "trim k = rev (dropWhile is_space (rev (dropWhile is_space k)))"

definition analysis_kinds :: "string list" where
  "analysis_kinds = [''summary'', ''classification'', ''keywords'', ''insights'']"

text \<open>
  The two writes of \<^verbatim>\<open>analyzeDocument\<close> as it issues them through \<^verbatim>\<open>ctx.runMutation\<close>:
  the call is recorded; a rejected write throws and writes nothing.
\<close>

definition run_saveAnalysis ::
  "env \<Rightarrow> nat \<Rightarrow> nat \<Rightarrow> string \<Rightarrow> string \<Rightarrow> real \<Rightarrow> state \<Rightarrow> unit outcome \<times> state" where
  "run_saveAnalysis e i uid kind res conf s =
     (let s0 = record_call (Call_saveAnalysis i kind) s
      in case mutation_fails e (Call_saveAnalysis i kind) of
           Some m \<Rightarrow> (Throw (Error m), s0)
         | None \<Rightarrow> (Ok (), saveAnalysis i uid kind res conf s0))"

definition run_updateDocumentAnalysis ::
  "env \<Rightarrow> nat \<Rightarrow> string \<Rightarrow> string \<Rightarrow> string list \<Rightarrow> state \<Rightarrow> unit outcome \<times> state" where
  "run_updateDocumentAnalysis e i summ cls kws s =
     (let s0 = record_call (Call_updateDocumentAnalysis i) s
      in case mutation_fails e (Call_updateDocumentAnalysis i) of
           Some m \<Rightarrow> (Throw (Error m), s0)
         | None \<Rightarrow> updateDocumentAnalysis i summ cls kws s0)"

text \<open>
  The \<^verbatim>\<open>for\<close> loop over the analyses: one \<^verbatim>\<open>saveAnalysis\<close> for each, in order; the first
  write that throws ends the loop.
\<close>

fun save_loop ::
  "env \<Rightarrow> nat \<Rightarrow> nat \<Rightarrow> (string \<times> string \<times> real) list \<Rightarrow> state \<Rightarrow> unit outcome \<times> state" where
  "save_loop e i uid [] s = (Ok (), s)"
| "save_loop e i uid ((kind, a) # rest) s =
     (case run_saveAnalysis e i uid kind (fst a) (snd a) s of
        (Throw err, s') \<Rightarrow> (Throw err, s')
      | (Ok u, s') \<Rightarrow> save_loop e i uid rest s')"

text \<open>The body of the \<^verbatim>\<open>try\<close> of \<^verbatim>\<open>analyzeDocument\<close>.\<close>

definition analyze_try :: "env \<Rightarrow> nat \<Rightarrow> string \<Rightarrow> state \<Rightarrow> unit outcome \<times> state" where
  "analyze_try e i content s =
     (case getDocumentForProcessing i s of
        None \<Rightarrow> (Throw (Error ''Document not found''), s)
      | Some document \<Rightarrow>
          (case promise_all
                  [analyzeWithAI e content ''summary'',
                   analyzeWithAI e content ''classification'',
                   analyzeWithAI e content ''keywords'',
                   analyzeWithAI e content ''insights''] of
             Throw err \<Rightarrow> (Throw err, s)
           | Ok analyses \<Rightarrow>
               (case save_loop e i (userId document) (zip analysis_kinds analyses) s of
                  (Throw err, s1) \<Rightarrow> (Throw err, s1)
                | (Ok u, s1) \<Rightarrow>
                    run_updateDocumentAnalysis e i (fst (analyses ! 0)) (fst (analyses ! 1))
                      (map trim (split_on CHR '','' (fst (analyses ! 2)))) s1)))"

text \<open>\<^verbatim>\<open>analyzeDocument\<close>: the \<^verbatim>\<open>catch\<close> logs the error and returns.\<close>

definition analyzeDocument :: "env \<Rightarrow> nat \<Rightarrow> string \<Rightarrow> state \<Rightarrow> unit outcome \<times> state" where
  "analyzeDocument e i content s =
     (case analyze_try e i content s of
        (Ok u, s') \<Rightarrow> (Ok (), s')
      | (Throw err, s') \<Rightarrow> (Ok (), console_error ''AI analysis failed:'' err s'))"

definition chatWithDocument ::
  "env \<Rightarrow> nat option \<Rightarrow> nat \<Rightarrow> string \<Rightarrow> state \<Rightarrow> (string \<times> real) outcome" where
  "chatWithDocument e caller i question s =
     (case caller of
        None \<Rightarrow> Throw (Error ''Authentication required'')
      | Some uid \<Rightarrow>
          (case getDocumentForProcessing i s of
             None \<Rightarrow> Throw (Error ''Document not found or access denied'')
           | Some d \<Rightarrow>
               if userId d \<noteq> uid then Throw (Error ''Document not found or access denied'')
               else
                 (case analyzeWithAI e
                         (''Document content: '' @ parsedContent d @ [CHR 0x0A, CHR 0x0A]
                            @ ''Question: '' @ question)
                         ''question_answer'' of
                    Throw err \<Rightarrow> Throw (Error ''Failed to analyze document with AI'')
                  | Ok response \<Rightarrow> Ok (fst response, snd response))))"

definition compareDocuments ::
  "env \<Rightarrow> nat option \<Rightarrow> nat \<Rightarrow> nat \<Rightarrow> state
     \<Rightarrow> (string \<times> real \<times> (nat \<times> string) \<times> (nat \<times> string)) outcome" where
  "compareDocuments e caller i1 i2 s =
     (case caller of
        None \<Rightarrow> Throw (Error ''Authentication required'')
      | Some uid \<Rightarrow>
          (case (getDocumentForProcessing i1 s, getDocumentForProcessing i2 s) of
             (Some doc1, Some doc2) \<Rightarrow>
               if userId doc1 \<noteq> uid \<or> userId doc2 \<noteq> uid
               then Throw (Error ''Documents not found or access denied'')
               else
                 (case analyzeWithAI e
                         (''Document 1 ('' @ fileName doc1 @ ''): '' @ parsedContent doc1
                            @ [CHR 0x0A, CHR 0x0A]
                            @ ''Document 2 ('' @ fileName doc2 @ ''): '' @ parsedContent doc2)
                         ''comparison'' of
                    Throw err \<Rightarrow> Throw (Error ''Failed to compare documents'')
                  | Ok comparison \<Rightarrow>
                      Ok (fst comparison, snd comparison,
                          (doc_id doc1, fileName doc1), (doc_id doc2, fileName doc2)))
           | _ \<Rightarrow> Throw (Error ''Documents not found or access denied'')))"

section \<open>The orchestrator (convex/documents.ts, processDocument)\<close>

text \<open>The body of the \<^verbatim>\<open>try\<close> of \<^verbatim>\<open>processDocument\<close>.\<close>

definition process_try :: "env \<Rightarrow> nat \<Rightarrow> document \<Rightarrow> state \<Rightarrow> unit outcome \<times> state" where
  "process_try e i document s =
     (case getUrl s (storageId document) of
        None \<Rightarrow> (Throw (Error ''File not found in storage''), s)
      | Some fileUrl \<Rightarrow>
          if fileUrl = [] then (Throw (Error ''File not found in storage''), s)
          else
            (case parseDocumentContent e fileUrl (fileType document) of
               Throw err \<Rightarrow> (Throw err, s)
             | Ok content \<Rightarrow>
                 (case updateParsedContent i content
                         (record_call (Call_updateParsedContent i) s) of
                    (Throw err, s1) \<Rightarrow> (Throw err, s1)
                  | (Ok u, s1) \<Rightarrow>
                      analyzeDocument e i content
                        (record_call (Call_analyzeDocument i) s1))))"

definition processDocument :: "env \<Rightarrow> nat \<Rightarrow> state \<Rightarrow> unit outcome \<times> state" where
  "processDocument e i s =
     (case getDocumentForProcessing i s of
        None \<Rightarrow> (Throw (Error ''Document not found''), s)
      | Some document \<Rightarrow>
          (case process_try e i document s of
             (Ok u, s') \<Rightarrow> (Ok (), s')
           | (Throw err, s') \<Rightarrow>
               markProcessingFailed i
                 (record_call (Call_markProcessingFailed i)
                    (console_error ''Document processing failed:'' err s'))))"

section \<open>Properties of the records and fixtures\<close>

text \<open>The processing flag is set only on content that is neither empty nor the sentinel.\<close>

definition processed_ok :: "document \<Rightarrow> bool" where
  "processed_ok d =
     (isProcessed d \<longrightarrow> parsedContent d \<noteq> [] \<and> parsedContent d \<noteq> failure_sentinel)"

definition processed_inv :: "state \<Rightarrow> bool" where
  "processed_inv s = list_all processed_ok (documents s)"

text \<open>The three analysis fields are all absent or all present.\<close>

definition fields_together :: "document \<Rightarrow> bool" where
  "fields_together d =
     (summary d = None \<and> classification d = None \<and> keywordList d = None
      \<or> summary d \<noteq> None \<and> classification d \<noteq> None \<and> keywordList d \<noteq> None)"

definition fields_inv :: "state \<Rightarrow> bool" where
  "fields_inv s = list_all fields_together (documents s)"

text \<open>
  Extraction throws: the part of the \<^verbatim>\<open>try\<close> of \<^verbatim>\<open>processDocument\<close> before the first
  write throws (no URL for the blob, or \<^verbatim>\<open>parseDocumentContent\<close> throws).
\<close>

definition extraction_throws :: "env \<Rightarrow> state \<Rightarrow> document \<Rightarrow> bool" where
  "extraction_throws e s d =
     (case getUrl s (storageId d) of
        None \<Rightarrow> True
      | Some fileUrl \<Rightarrow>
          fileUrl = [] \<or>
          (case parseDocumentContent e fileUrl (fileType d) of
             Throw err \<Rightarrow> True
           | Ok t \<Rightarrow> False))"

text \<open>
  The states the application can be in: clients save and delete documents, blobs are
  uploaded, time passes, and the scheduler runs \<^verbatim>\<open>processDocument\<close> on any id, any
  number of times.
\<close>

inductive reachable :: "env \<Rightarrow> state \<Rightarrow> bool" for e :: env where
  reach_init: "reachable e init_state"
| reach_save:
    "reachable e s \<Longrightarrow> reachable e (snd (saveDocument caller fName fType fSize sid s))"
| reach_delete: "reachable e s \<Longrightarrow> reachable e (snd (deleteDocument caller i s))"
| reach_process: "reachable e s \<Longrightarrow> reachable e (snd (processDocument e i s))"
| reach_upload: "reachable e s \<Longrightarrow> reachable e (s\<lparr>storage := (storage s)(sid \<mapsto> url)\<rparr>)"
| reach_tick: "reachable e s \<Longrightarrow> now s \<le> t \<Longrightarrow> reachable e (s\<lparr>now := t\<rparr>)"

text \<open>
  The scenario of the specification: user 1 uploads \<^verbatim>\<open>report.pdf\<close> (2 MB) as blob 7 and
  saves its metadata. \<open>reachable_blob\<close> is a network on which every fetch returns,
  \<open>unreachable_blob\<close> one on which every fetch throws.
\<close>

definition blob_url :: string where
  "blob_url = ''https://storage.example/blob/7''"

definition stored_state :: state where
  "stored_state = init_state\<lparr>storage := (storage init_state)(7 \<mapsto> blob_url)\<rparr>"

definition uploaded_state :: state where
  "uploaded_state = snd (saveDocument (Some 1) ''report.pdf'' ''pdf'' 2097152 7 stored_state)"

definition uploaded_document :: document where
  "uploaded_document =
     \<lparr>doc_id = 0, userId = 1, fileName = ''report.pdf'', fileType = ''pdf'',
       fileSize = 2097152, storageId = 7, parsedContent = [], uploadTime = 0,
       summary = None, classification = None, keywordList = None, isProcessed = False\<rparr>"

definition reachable_blob :: "string \<Rightarrow> string + unit" where
  "reachable_blob url = Inr ()"

definition unreachable_blob :: "string \<Rightarrow> string + unit" where
  "unreachable_blob url = Inl ''TypeError: fetch failed''"

text \<open>
  Further fixtures: the same upload declared as \<^verbatim>\<open>txt\<close>; the upload whose blob is not in
  the store; the scenario after a run on a working network and after a run on a failing
  one; a model that throws on the \<^verbatim>\<open>keywords\<close> request; a platform that rejects the
  insert of the \<^verbatim>\<open>keywords\<close> record, and one that rejects the final update of the
  document; and user 1 saving 51 documents.
\<close>

definition txt_state :: state where
  "txt_state = snd (saveDocument (Some 1) ''notes.txt'' ''txt'' 1024 7 stored_state)"

definition txt_document :: document where
  "txt_document =
     \<lparr>doc_id = 0, userId = 1, fileName = ''notes.txt'', fileType = ''txt'',
       fileSize = 1024, storageId = 7, parsedContent = [], uploadTime = 0,
       summary = None, classification = None, keywordList = None, isProcessed = False\<rparr>"

definition blobless_state :: state where
  "blobless_state = snd (saveDocument (Some 1) ''report.pdf'' ''pdf'' 2097152 7 init_state)"

definition processed_state :: state where
  "processed_state = snd (processDocument (mock_env reachable_blob) 0 uploaded_state)"

definition processed_document :: document where
  "processed_document =
     uploaded_document\<lparr>parsedContent := pdf_placeholder, isProcessed := True,
       summary := Some (generateMockResponse ''summary'' pdf_placeholder),
       classification := Some ''Business'',
       keywordList := Some [''business'', ''strategy'', ''implementation'', ''process'',
          ''guidelines'', ''management'', ''operations'', ''efficiency'']\<rparr>"

definition failed_state :: state where
  "failed_state = snd (processDocument (mock_env unreachable_blob) 0 uploaded_state)"

definition keywords_outage :: env where
  "keywords_outage =
     \<lparr>fetch = reachable_blob,
       model = (\<lambda>kind content. if kind = ''keywords'' then Inl ''Error: model unavailable''
                                else Inr (generateMockResponse kind content)),
       mutation_fails = (\<lambda>c. None)\<rparr>"

definition insert_outage :: env where
  "insert_outage =
     \<lparr>fetch = reachable_blob,
       model = (\<lambda>kind content. Inr (generateMockResponse kind content)),
       mutation_fails = (\<lambda>c. if c = Call_saveAnalysis 0 ''keywords''
                              then Some ''Transaction rejected'' else None)\<rparr>"

definition patch_outage :: env where
  "patch_outage =
     \<lparr>fetch = reachable_blob,
       model = (\<lambda>kind content. Inr (generateMockResponse kind content)),
       mutation_fails = (\<lambda>c. if c = Call_updateDocumentAnalysis 0
                              then Some ''Transaction rejected'' else None)\<rparr>"

definition crowded_state :: state where
  "crowded_state =
     ((\<lambda>s. snd (saveDocument (Some 1) ''page.pdf'' ''pdf'' 1024 7 s)) ^^ 51) stored_state"

text \<open>
  The check of the upload form (\<^verbatim>\<open>handleFileUpload\<close> of the client component) on the
  MIME type and the size of the chosen file, before any upload URL is requested: the
  message shown when the file is refused, or \<open>None\<close> when the upload goes on.
\<close>

definition allowedTypes :: "string list" where
  "allowedTypes =
     [''application/pdf'',
      ''application/vnd.openxmlformats-officedocument.wordprocessingml.document'']"

definition handleFileUpload_validation :: "string \<Rightarrow> nat \<Rightarrow> string option" where
  "handleFileUpload_validation mime fSize =
     (if mime \<notin> set allowedTypes then Some ''Only PDF and DOCX files are supported''
      else if fSize > 10 * 1024 * 1024 then Some ''File size must be less than 10MB''
      else None)"

section \<open>Lemmas about the database primitives\<close>

lemma documents_record_call [simp]: "documents (record_call c s) = documents s"
  by (simp add: record_call_def)

lemma documents_console_error [simp]: "documents (console_error l e s) = documents s"
  by (simp add: console_error_def)

lemma documents_saveAnalysis [simp]: "documents (saveAnalysis i u k r c s) = documents s"
  by (simp add: saveAnalysis_def)

lemma run_saveAnalysis_keeps [simp]:
  "documents (snd (run_saveAnalysis e i u kind r c s)) = documents s"
  "console (snd (run_saveAnalysis e i u kind r c s)) = console s"
  by (simp_all add: run_saveAnalysis_def saveAnalysis_def record_call_def Let_def
      split: option.splits)

lemma save_loop_keeps_both:
  "documents (snd (save_loop e i u xs s)) = documents s \<and>
   console (snd (save_loop e i u xs s)) = console s"
proof (induction xs arbitrary: s)
  case Nil
  show ?case by simp
next
  case (Cons x xs)
  obtain kind a where x: "x = (kind, a)" by (cases x)
  obtain r t where rt: "run_saveAnalysis e i u kind (fst a) (snd a) s = (r, t)"
    by (cases "run_saveAnalysis e i u kind (fst a) (snd a) s")
  have d: "documents t = documents s" and c: "console t = console s"
    using run_saveAnalysis_keeps [of e i u kind "fst a" "snd a" s] by (simp_all add: rt)
  show ?case using Cons.IH [of t] d c by (cases r) (simp_all add: x rt)
qed

lemma save_loop_keeps [simp]:
  "documents (snd (save_loop e i u xs s)) = documents s"
  "console (snd (save_loop e i u xs s)) = console s"
  using save_loop_keeps_both [of e i u xs s] by simp_all

lemma run_updateDocumentAnalysis_Throw:
  assumes "fst (run_updateDocumentAnalysis e i a b k s) = Throw err"
  shows "documents (snd (run_updateDocumentAnalysis e i a b k s)) = documents s \<and>
         console (snd (run_updateDocumentAnalysis e i a b k s)) = console s"
  using assms
  by (auto simp: run_updateDocumentAnalysis_def updateDocumentAnalysis_def db_patch_def
      record_call_def Let_def split: option.splits)

lemma list_all_db_patch:
  assumes "list_all P (documents s)" and "\<And>d. P d \<Longrightarrow> P (f d)"
  shows "list_all P (documents (snd (db_patch i f s)))"
  using assms by (auto simp: db_patch_def list_all_iff split: option.splits)

lemma db_get_patched:
  assumes "\<And>d. doc_id (f d) = doc_id d"
  shows "db_get (map (\<lambda>d. if doc_id d = i then f d else d) docs) j
         = (if j = i then map_option f (db_get docs i) else db_get docs j)"
  using assms by (induction docs) (auto simp: db_get_def)

lemma db_get_Some_mem: "db_get docs i = Some d \<Longrightarrow> d \<in> set docs \<and> doc_id d = i"
  by (auto simp: db_get_def find_Some_iff)

section \<open>A property of every record is kept by the background actions\<close>

lemma analyzeDocument_returns: "fst (analyzeDocument e i c s) = Ok ()"
  by (simp add: analyzeDocument_def split: prod.splits outcome.splits)

lemma list_all_analyze_try:
  assumes "list_all P (documents s)"
    and "\<And>d a b k. P d \<Longrightarrow>
           P (d\<lparr>summary := Some a, classification := Some b, keywordList := Some k\<rparr>)"
  shows "list_all P (documents (snd (analyze_try e i c s)))"
proof -
  have upd: "list_all P (documents (snd (updateDocumentAnalysis i a b k t)))"
    if "list_all P (documents t)" for a b k t
    unfolding updateDocumentAnalysis_def using that assms(2) by (rule list_all_db_patch)
  have run: "list_all P (documents (snd (run_updateDocumentAnalysis e i a b k t)))"
    if "list_all P (documents t)" for a b k t
    using that upd [of "record_call (Call_updateDocumentAnalysis i) t" a b k]
    by (simp add: run_updateDocumentAnalysis_def Let_def split: option.splits)
  show ?thesis
  proof (cases "getDocumentForProcessing i s")
    case None
    then show ?thesis by (simp add: analyze_try_def assms(1))
  next
    case (Some document)
    show ?thesis
    proof (cases "promise_all
                  [analyzeWithAI e c ''summary'', analyzeWithAI e c ''classification'',
                   analyzeWithAI e c ''keywords'', analyzeWithAI e c ''insights'']")
      case (Throw err)
      then show ?thesis using Some by (simp add: analyze_try_def assms(1))
    next
      case (Ok analyses)
      obtain r s1 where l:
        "save_loop e i (userId document) (zip analysis_kinds analyses) s = (r, s1)"
        by (cases "save_loop e i (userId document) (zip analysis_kinds analyses) s")
      have s1: "list_all P (documents s1)"
        using save_loop_keeps(1) [of e i "userId document" "zip analysis_kinds analyses" s]
          assms(1) by (simp add: l)
      show ?thesis
        using Some Ok l s1 run [OF s1]
        by (cases r) (simp_all add: analyze_try_def)
    qed
  qed
qed

lemma list_all_analyzeDocument:
  assumes "list_all P (documents s)"
    and "\<And>d a b k. P d \<Longrightarrow>
           P (d\<lparr>summary := Some a, classification := Some b, keywordList := Some k\<rparr>)"
  shows "list_all P (documents (snd (analyzeDocument e i c s)))"
  using list_all_analyze_try [OF assms, of e i c]
  by (auto simp: analyzeDocument_def split: prod.splits outcome.splits)

lemma parse_Ok_placeholder:
  "parseDocumentContent e u t = Ok c \<Longrightarrow> c = pdf_placeholder \<or> c = docx_placeholder"
  by (auto simp: parseDocumentContent_def parse_try_def split: sum.splits if_splits)

lemma list_all_process_try:
  assumes "list_all P (documents s)"
    and "\<And>d a b k. P d \<Longrightarrow>
           P (d\<lparr>summary := Some a, classification := Some b, keywordList := Some k\<rparr>)"
    and "\<And>d c. P d \<Longrightarrow> c = pdf_placeholder \<or> c = docx_placeholder
            \<Longrightarrow> P (d\<lparr>parsedContent := c, isProcessed := True\<rparr>)"
  shows "list_all P (documents (snd (process_try e i d s)))"
proof (cases "getUrl s (storageId d)")
  case None
  then show ?thesis by (simp add: process_try_def assms(1))
next
  case (Some url)
  show ?thesis
  proof (cases "parseDocumentContent e url (fileType d)")
    case (Throw err)
    then show ?thesis using Some by (simp add: process_try_def assms(1))
  next
    case (Ok c)
    let ?s1 = "snd (updateParsedContent i c (record_call (Call_updateParsedContent i) s))"
    have c: "c = pdf_placeholder \<or> c = docx_placeholder"
      using Ok by (rule parse_Ok_placeholder)
    have s1: "list_all P (documents ?s1)"
      unfolding updateParsedContent_def
      by (rule list_all_db_patch) (simp_all add: assms(1) assms(3) c)
    then have "list_all P
        (documents (snd (analyzeDocument e i c (record_call (Call_analyzeDocument i) ?s1))))"
      by (intro list_all_analyzeDocument) (simp_all add: assms(2))
    then show ?thesis
      using Some Ok assms(1) s1
      by (auto simp: process_try_def split: prod.splits outcome.splits)
  qed
qed

lemma list_all_processDocument:
  assumes "list_all P (documents s)"
    and "\<And>d a b k. P d \<Longrightarrow>
           P (d\<lparr>summary := Some a, classification := Some b, keywordList := Some k\<rparr>)"
    and "\<And>d c. P d \<Longrightarrow> c = pdf_placeholder \<or> c = docx_placeholder
            \<Longrightarrow> P (d\<lparr>parsedContent := c, isProcessed := True\<rparr>)"
    and "\<And>d. P d \<Longrightarrow> P (d\<lparr>isProcessed := False, parsedContent := failure_sentinel\<rparr>)"
  shows "list_all P (documents (snd (processDocument e i s)))"
proof (cases "getDocumentForProcessing i s")
  case None
  then show ?thesis by (simp add: processDocument_def assms(1))
next
  case (Some d)
  have t: "list_all P (documents (snd (process_try e i d s)))"
    using assms(1,2,3) by (rule list_all_process_try)
  have m: "list_all P (documents (snd (markProcessingFailed i t)))"
    if "list_all P (documents t)" for t
    unfolding markProcessingFailed_def using that assms(4) by (rule list_all_db_patch)
  show ?thesis
    using Some t
    by (auto simp: processDocument_def intro!: m split: prod.splits outcome.splits)
qed

section \<open>Lemmas about the operations\<close>

lemma list_all_saveDocument:
  assumes "list_all P (documents s)"
    and "\<And>d. parsedContent d = [] \<Longrightarrow> \<not> isProcessed d \<Longrightarrow> summary d = None \<Longrightarrow>
           classification d = None \<Longrightarrow> keywordList d = None \<Longrightarrow> P d"
  shows "list_all P (documents (snd (saveDocument caller fName fType fSize sid s)))"
  using assms by (auto simp: saveDocument_def Let_def split: option.splits)

lemma documents_delete_loop [simp]:
  "documents (foldl (\<lambda>t a. db_delete_analysis (analysis_id a) t) s xs) = documents s"
  by (induction xs arbitrary: s) (auto simp: db_delete_analysis_def)

lemma list_all_deleteDocument:
  assumes "list_all P (documents s)"
  shows "list_all P (documents (snd (deleteDocument caller i s)))"
  using assms by (auto simp: deleteDocument_def Let_def list_all_iff split: option.splits)

lemma placeholder_not_sentinel:
  "c = pdf_placeholder \<or> c = docx_placeholder \<Longrightarrow> c \<noteq> [] \<and> c \<noteq> failure_sentinel"
  by (auto simp: pdf_placeholder_def docx_placeholder_def failure_sentinel_def)

lemma processed_inv_processDocument:
  "processed_inv s \<Longrightarrow> processed_inv (snd (processDocument e i s))"
  unfolding processed_inv_def
  by (erule list_all_processDocument)
     (use placeholder_not_sentinel in \<open>auto simp: processed_ok_def\<close>)

lemma processed_inv_reachable: "reachable e s \<Longrightarrow> processed_inv s"
proof (induction rule: reachable.induct)
  case reach_init
  show ?case by (simp add: processed_inv_def init_state_def)
next
  case (reach_save s caller fName fType fSize sid)
  from reach_save.IH show ?case
    unfolding processed_inv_def
    by (elim list_all_saveDocument) (simp add: processed_ok_def)
next
  case (reach_delete s caller i)
  from reach_delete.IH show ?case unfolding processed_inv_def by (rule list_all_deleteDocument)
next
  case (reach_process s i)
  from reach_process.IH show ?case by (rule processed_inv_processDocument)
next
  case (reach_upload s sid url)
  then show ?case by (simp add: processed_inv_def)
next
  case (reach_tick s t)
  then show ?case by (simp add: processed_inv_def)
qed

lemma fields_inv_processDocument:
  "fields_inv s \<Longrightarrow> fields_inv (snd (processDocument e i s))"
  unfolding fields_inv_def
  by (erule list_all_processDocument) (auto simp: fields_together_def)

lemma fields_inv_reachable: "reachable e s \<Longrightarrow> fields_inv s"
proof (induction rule: reachable.induct)
  case reach_init
  show ?case by (simp add: fields_inv_def init_state_def)
next
  case (reach_save s caller fName fType fSize sid)
  from reach_save.IH show ?case
    unfolding fields_inv_def
    by (elim list_all_saveDocument) (simp add: fields_together_def)
next
  case (reach_delete s caller i)
  from reach_delete.IH show ?case unfolding fields_inv_def by (rule list_all_deleteDocument)
next
  case (reach_process s i)
  from reach_process.IH show ?case by (rule fields_inv_processDocument)
next
  case (reach_upload s sid url)
  then show ?case by (simp add: fields_inv_def)
next
  case (reach_tick s t)
  then show ?case by (simp add: fields_inv_def)
qed

lemma process_try_extraction_throws:
  assumes "extraction_throws e s d"
  shows "\<exists>err. process_try e i d s = (Throw err, s)"
  using assms
  by (auto simp: extraction_throws_def process_try_def split: option.splits outcome.splits)

lemma getDocumentForProcessing_simps [simp]:
  "getDocumentForProcessing i (record_call c s) = getDocumentForProcessing i s"
  "getDocumentForProcessing i (console_error l err s) = getDocumentForProcessing i s"
  by (simp_all add: getDocumentForProcessing_def)

lemma extraction_throws_iff:
  "extraction_throws e s d \<longleftrightarrow>
     (case getUrl s (storageId d) of
        None \<Rightarrow> True
      | Some url \<Rightarrow> url = [] \<or> isl (fetch e url) \<or> (fileType d \<noteq> ''pdf'' \<and> fileType d \<noteq> ''docx''))"
  by (auto simp: extraction_throws_def parseDocumentContent_def parse_try_def
      split: option.splits sum.splits outcome.splits)

lemma promise_all_four_Throw:
  assumes "isl (model e ''summary'' c) \<or> isl (model e ''classification'' c)
           \<or> isl (model e ''keywords'' c) \<or> isl (model e ''insights'' c)"
  shows "\<exists>err. promise_all
           [analyzeWithAI e c ''summary'', analyzeWithAI e c ''classification'',
            analyzeWithAI e c ''keywords'', analyzeWithAI e c ''insights''] = Throw err"
  using assms
  by (auto simp: analyzeWithAI_def isl_def split: sum.splits)

lemma analyze_try_Throw_state:
  assumes "fst (analyze_try e i c s) = Throw err"
  shows "documents (snd (analyze_try e i c s)) = documents s \<and>
         console (snd (analyze_try e i c s)) = console s"
proof (cases "getDocumentForProcessing i s")
  case None
  then show ?thesis by (simp add: analyze_try_def)
next
  case (Some document)
  show ?thesis
  proof (cases "promise_all
                  [analyzeWithAI e c ''summary'', analyzeWithAI e c ''classification'',
                   analyzeWithAI e c ''keywords'', analyzeWithAI e c ''insights'']")
    case (Throw err')
    then show ?thesis using Some by (simp add: analyze_try_def)
  next
    case (Ok analyses)
    obtain r s1 where l:
      "save_loop e i (userId document) (zip analysis_kinds analyses) s = (r, s1)"
      by (cases "save_loop e i (userId document) (zip analysis_kinds analyses) s")
    have s1: "documents s1 = documents s" "console s1 = console s"
      using save_loop_keeps [of e i "userId document" "zip analysis_kinds analyses" s]
      by (simp_all add: l)
    show ?thesis
    proof (cases r)
      case (Throw err')
      then show ?thesis using Some Ok l s1 by (simp add: analyze_try_def)
    next
      case (Ok u)
      let ?run = "run_updateDocumentAnalysis e i (fst (analyses ! 0)) (fst (analyses ! 1))
                    (map trim (split_on CHR '','' (fst (analyses ! 2)))) s1"
      have a: "analyze_try e i c s = ?run"
        using Some \<open>promise_all _ = Ok analyses\<close> l Ok by (simp add: analyze_try_def)
      then have "fst ?run = Throw err" using assms by simp
      from run_updateDocumentAnalysis_Throw [OF this] show ?thesis
        by (simp add: a s1)
    qed
  qed
qed

lemma save_loop_Ok_no_fault:
  "fst (save_loop e i u xs s) = Ok () \<Longrightarrow>
     list_all (\<lambda>x. mutation_fails e (Call_saveAnalysis i (fst x)) = None) xs"
proof (induction xs arbitrary: s)
  case Nil
  show ?case by simp
next
  case (Cons x xs)
  obtain kind a where x: "x = (kind, a)" by (cases x)
  show ?case
  proof (cases "mutation_fails e (Call_saveAnalysis i kind)")
    case (Some m)
    then show ?thesis using Cons.prems by (simp add: x run_saveAnalysis_def Let_def)
  next
    case None
    then have "fst (save_loop e i u xs
        (saveAnalysis i u kind (fst a) (snd a) (record_call (Call_saveAnalysis i kind) s)))
        = Ok ()"
      using Cons.prems by (simp add: x run_saveAnalysis_def Let_def)
    from Cons.IH [OF this] None show ?thesis by (simp add: x)
  qed
qed

lemma promise_all_length: "promise_all rs = Ok xs \<Longrightarrow> length xs = length rs"
proof (induction rs arbitrary: xs)
  case Nil
  then show ?case by simp
next
  case (Cons r rs)
  then show ?case by (cases r) (auto split: outcome.splits)
qed

lemma analyze_try_Ok_no_fault:
  assumes "fst (analyze_try e i c s) = Ok ()"
  shows "mutation_fails e (Call_updateDocumentAnalysis i) = None \<and>
         list_all (\<lambda>kind. mutation_fails e (Call_saveAnalysis i kind) = None) analysis_kinds"
proof (cases "getDocumentForProcessing i s")
  case None
  then show ?thesis using assms by (simp add: analyze_try_def)
next
  case (Some document)
  show ?thesis
  proof (cases "promise_all
                  [analyzeWithAI e c ''summary'', analyzeWithAI e c ''classification'',
                   analyzeWithAI e c ''keywords'', analyzeWithAI e c ''insights'']")
    case (Throw err')
    then show ?thesis using Some assms by (simp add: analyze_try_def)
  next
    case (Ok analyses)
    have len: "length analyses = 4"
      using promise_all_length [OF Ok] by simp
    obtain r s1 where l:
      "save_loop e i (userId document) (zip analysis_kinds analyses) s = (r, s1)"
      by (cases "save_loop e i (userId document) (zip analysis_kinds analyses) s")
    show ?thesis
    proof (cases r)
      case (Throw err')
      then show ?thesis using Some \<open>promise_all _ = Ok analyses\<close> l assms
        by (simp add: analyze_try_def)
    next
      case (Ok u)
      then have "fst (save_loop e i (userId document) (zip analysis_kinds analyses) s) = Ok ()"
        using l by simp
      from save_loop_Ok_no_fault [OF this]
      have "list_all (\<lambda>kind. mutation_fails e (Call_saveAnalysis i kind) = None)
              (map fst (zip analysis_kinds analyses))"
        by (simp add: list_all_iff)
      moreover have "map fst (zip analysis_kinds analyses) = analysis_kinds"
        using len by (simp add: analysis_kinds_def)
      ultimately have saves:
        "list_all (\<lambda>kind. mutation_fails e (Call_saveAnalysis i kind) = None) analysis_kinds"
        by simp
      have "fst (run_updateDocumentAnalysis e i (fst (analyses ! 0)) (fst (analyses ! 1))
                    (map trim (split_on CHR '','' (fst (analyses ! 2)))) s1) = Ok ()"
        using Some \<open>promise_all _ = Ok analyses\<close> l Ok assms by (simp add: analyze_try_def)
      then have "mutation_fails e (Call_updateDocumentAnalysis i) = None"
        by (cases "mutation_fails e (Call_updateDocumentAnalysis i)")
           (simp_all add: run_updateDocumentAnalysis_def Let_def)
      with saves show ?thesis by simp
    qed
  qed
qed

lemma analyzeDocument_after_Throw:
  assumes "fst (analyze_try e i c s) = Throw err"
  shows "documents (snd (analyzeDocument e i c s)) = documents s \<and>
         console (snd (analyzeDocument e i c s))
           = console s @ [''AI analysis failed: '' @ error_to_string err]"
  using analyze_try_Throw_state [OF assms] assms
  by (auto simp: analyzeDocument_def console_error_def split: prod.splits outcome.splits)

lemma mock_keywords:
  "map trim (split_on CHR '','' (generateMockResponse ''keywords'' c))
     = [''business'', ''strategy'', ''implementation'', ''process'', ''guidelines'',
        ''management'', ''operations'', ''efficiency'']"
  by (simp add: generateMockResponse_def trim_def is_space_def)

lemma split_on_not_Nil: "split_on c s \<noteq> []"
  by (induction s) (auto split: list.splits)

lemma parse_supported:
  assumes "fetch e url = Inr ()" and "t = ''pdf'' \<or> t = ''docx''"
  shows "parseDocumentContent e url t
           = Ok (if t = ''pdf'' then pdf_placeholder else docx_placeholder)"
  using assms by (auto simp: parseDocumentContent_def parse_try_def)

lemma processDocument_extracted:
  assumes "getDocumentForProcessing i s = Some d"
    and "getUrl s (storageId d) = Some url" and "url \<noteq> []"
    and "parseDocumentContent e url (fileType d) = Ok c"
  shows "processDocument e i s
         = (Ok (), snd (analyzeDocument e i c
              (record_call (Call_analyzeDocument i)
                ((record_call (Call_updateParsedContent i) s)
                   \<lparr>documents := map (\<lambda>x. if doc_id x = i
                       then x\<lparr>parsedContent := c, isProcessed := True\<rparr> else x)
                     (documents s)\<rparr>))))"
proof -
  let ?s1 = "(record_call (Call_updateParsedContent i) s)
               \<lparr>documents := map (\<lambda>x. if doc_id x = i
                   then x\<lparr>parsedContent := c, isProcessed := True\<rparr> else x) (documents s)\<rparr>"
  let ?s2 = "record_call (Call_analyzeDocument i) ?s1"
  have g: "db_get (documents s) i = Some d"
    using assms(1) by (simp add: getDocumentForProcessing_def)
  have u: "updateParsedContent i c (record_call (Call_updateParsedContent i) s) = (Ok (), ?s1)"
    using g by (simp add: updateParsedContent_def db_patch_def record_call_def)
  obtain s' where an: "analyzeDocument e i c ?s2 = (Ok (), s')"
    using analyzeDocument_returns [of e i c ?s2] by (cases "analyzeDocument e i c ?s2") simp
  show ?thesis
    using assms u an by (simp add: processDocument_def process_try_def)
qed

lemma analyzeDocument_mock:
  assumes "getDocumentForProcessing i t = Some d0"
  shows "db_get (documents (snd (analyzeDocument (mock_env f) i c t))) i
           = Some (d0\<lparr>summary := Some (generateMockResponse ''summary'' c),
                      classification := Some (generateMockResponse ''classification'' c),
                      keywordList := Some (map trim (split_on CHR '',''
                         (generateMockResponse ''keywords'' c)))\<rparr>) \<and>
         documentAnalysis (snd (analyzeDocument (mock_env f) i c t))
           = documentAnalysis t @
             map (\<lambda>(n, kind). \<lparr>analysis_id = next_id t + n, documentId = i,
                    analysisUserId = userId d0, analysisType = kind,
                    result = generateMockResponse kind c, confidence = 0.85,
                    createdAt = now t\<rparr>)
               [(0, ''summary''), (1, ''classification''), (2, ''keywords''), (3, ''insights'')]"
proof -
  have g: "db_get (documents t) i = Some d0"
    using assms by (simp add: getDocumentForProcessing_def)
  have docs: "db_get (documents (snd (analyzeDocument (mock_env f) i c t))) i
           = Some (d0\<lparr>summary := Some (generateMockResponse ''summary'' c),
                      classification := Some (generateMockResponse ''classification'' c),
                      keywordList := Some (map trim (split_on CHR '',''
                         (generateMockResponse ''keywords'' c)))\<rparr>)"
    using assms g
    by (simp add: analyzeDocument_def analyze_try_def analyzeWithAI_def mock_env_def
        analysis_kinds_def run_saveAnalysis_def run_updateDocumentAnalysis_def
        updateDocumentAnalysis_def db_patch_def Let_def db_get_patched
        getDocumentForProcessing_def saveAnalysis_def record_call_def)
  have an: "documentAnalysis (snd (analyzeDocument (mock_env f) i c t))
           = documentAnalysis t @
             map (\<lambda>(n, kind). \<lparr>analysis_id = next_id t + n, documentId = i,
                    analysisUserId = userId d0, analysisType = kind,
                    result = generateMockResponse kind c, confidence = 0.85,
                    createdAt = now t\<rparr>)
               [(0, ''summary''), (1, ''classification''), (2, ''keywords''), (3, ''insights'')]"
    using assms g
    by (simp add: analyzeDocument_def analyze_try_def analyzeWithAI_def mock_env_def
        analysis_kinds_def run_saveAnalysis_def run_updateDocumentAnalysis_def
        updateDocumentAnalysis_def db_patch_def Let_def
        getDocumentForProcessing_def saveAnalysis_def record_call_def)
  show ?thesis using docs an by (rule conjI)
qed

lemma length_by_user [simp]:
  "length (by_user_and_upload_time_desc uid docs) = length (filter (\<lambda>d. userId d = uid) docs)"
  by (simp add: by_user_and_upload_time_desc_def)

lemma set_by_user [simp]:
  "set (by_user_and_upload_time_desc uid docs) = {d \<in> set docs. userId d = uid}"
  by (auto simp: by_user_and_upload_time_desc_def)

lemma sorted_by_user:
  "sorted_wrt (\<lambda>a b. uploadTime b \<le> uploadTime a) (by_user_and_upload_time_desc uid docs)"
proof -
  have "sorted (map uploadTime (sort_key uploadTime (filter (\<lambda>d. userId d = uid) docs)))"
    by (rule sorted_sort_key)
  then have "sorted_wrt (\<lambda>a b. uploadTime a \<le> uploadTime b)
               (sort_key uploadTime (filter (\<lambda>d. userId d = uid) docs))"
    by (simp add: sorted_map)
  then show ?thesis
    by (simp add: by_user_and_upload_time_desc_def sorted_wrt_rev)
qed

lemma saves_owned:
  "length (filter (\<lambda>d. userId d = u)
      (documents (((\<lambda>s. snd (saveDocument (Some u) a b c sid s)) ^^ n) s)))
   = length (filter (\<lambda>d. userId d = u) (documents s)) + n"
  by (induction n) (simp_all add: saveDocument_def Let_def)

lemma crowded_owned:
  "length (filter (\<lambda>d. userId d = 1) (documents crowded_state)) = 51"
  unfolding crowded_state_def saves_owned
  by (simp add: stored_state_def init_state_def)


section \<open>The fixtures, evaluated\<close>

lemma uploaded_documents: "documents uploaded_state = [uploaded_document]"
  by (simp add: uploaded_state_def stored_state_def saveDocument_def init_state_def
      uploaded_document_def)

lemma uploaded_get: "getDocumentForProcessing 0 uploaded_state = Some uploaded_document"
  by (simp add: getDocumentForProcessing_def uploaded_documents db_get_def uploaded_document_def)

lemma uploaded_url: "getUrl uploaded_state (storageId uploaded_document) = Some blob_url"
  by (simp add: getUrl_def uploaded_state_def stored_state_def saveDocument_def init_state_def
      uploaded_document_def)

lemma blob_url_not_empty: "blob_url \<noteq> []"
  by (simp add: blob_url_def)

lemma uploaded_db_get: "db_get (documents uploaded_state) 0 = Some uploaded_document"
  using uploaded_get by (simp add: getDocumentForProcessing_def)

lemma uploaded_parse:
  "parseDocumentContent (mock_env reachable_blob) blob_url (fileType uploaded_document)
     = Ok pdf_placeholder"
  by (simp add: parseDocumentContent_def parse_try_def mock_env_def reachable_blob_def
      uploaded_document_def)

lemma reachable_uploaded: "reachable e uploaded_state"
  unfolding uploaded_state_def stored_state_def
  by (intro reach_save reach_upload reach_init)

lemma reachable_processed: "reachable (mock_env reachable_blob) processed_state"
  unfolding processed_state_def by (intro reach_process reachable_uploaded)

lemma processed_db_get: "db_get (documents processed_state) 0 = Some processed_document"
proof -
  let ?s2 = "record_call (Call_analyzeDocument 0)
              ((record_call (Call_updateParsedContent 0) uploaded_state)
                 \<lparr>documents := map (\<lambda>x. if doc_id x = 0
                     then x\<lparr>parsedContent := pdf_placeholder, isProcessed := True\<rparr> else x)
                   (documents uploaded_state)\<rparr>)"
  have pd: "processDocument (mock_env reachable_blob) 0 uploaded_state
              = (Ok (), snd (analyzeDocument (mock_env reachable_blob) 0 pdf_placeholder ?s2))"
    using uploaded_get uploaded_url blob_url_not_empty uploaded_parse
    by (rule processDocument_extracted)
  have g2: "getDocumentForProcessing 0 ?s2
              = Some (uploaded_document\<lparr>parsedContent := pdf_placeholder, isProcessed := True\<rparr>)"
    using uploaded_db_get
    by (simp add: getDocumentForProcessing_def db_get_patched)
  have cls: "generateMockResponse ''classification'' pdf_placeholder = ''Business''"
    by (simp add: generateMockResponse_def)
  show ?thesis
    using analyzeDocument_mock [OF g2, of reachable_blob pdf_placeholder]
    by (simp add: processed_state_def pd processed_document_def mock_keywords cls)
qed

lemma failed_db_get:
  "db_get (documents failed_state) 0
     = Some (uploaded_document\<lparr>isProcessed := False, parsedContent := failure_sentinel\<rparr>)"
proof -
  have t: "process_try (mock_env unreachable_blob) 0 uploaded_document uploaded_state
             = (Throw (Error ''Failed to parse document: TypeError: fetch failed''),
                uploaded_state)"
    using uploaded_url blob_url_not_empty
    by (simp add: process_try_def parseDocumentContent_def parse_try_def mock_env_def
        unreachable_blob_def)
  show ?thesis
    using uploaded_get uploaded_db_get t
    by (simp add: failed_state_def processDocument_def markProcessingFailed_def db_patch_def
        db_get_patched)
qed

lemma txt_get: "getDocumentForProcessing 0 txt_state = Some txt_document"
  by (simp add: getDocumentForProcessing_def txt_state_def stored_state_def saveDocument_def
      init_state_def db_get_def txt_document_def)

lemma blobless_get: "getDocumentForProcessing 0 blobless_state = Some uploaded_document"
  by (simp add: getDocumentForProcessing_def blobless_state_def saveDocument_def
      init_state_def db_get_def uploaded_document_def)

lemma client_refuses_text_plain:
  "handleFileUpload_validation ''text/plain'' 1024
     = Some ''Only PDF and DOCX files are supported''"
  by (simp add: handleFileUpload_validation_def allowedTypes_def)


section \<open>The claims\<close>

subsection \<open>C1: the processing flag and the parsed content\<close>

text \<open>
  C1, as amended. In every state the application can reach, a document whose processing
  flag is set has parsed content that is neither empty nor the failure sentinel. The
  property holds of the empty database and is kept by \<^verbatim>\<open>saveDocument\<close>,
  \<^verbatim>\<open>markProcessingFailed\<close>, \<^verbatim>\<open>updateDocumentAnalysis\<close> and \<^verbatim>\<open>processDocument\<close>; the
  mutation \<^verbatim>\<open>updateParsedContent\<close> keeps it when the content it is given is neither empty
  nor the sentinel, which is so for the only caller it has, \<^verbatim>\<open>processDocument\<close>, which
  passes one of the two placeholder texts of the extractor.
\<close>

theorem processed_flag_invariant:
  "processed_inv init_state \<and>
   (processed_inv s \<longrightarrow>
      processed_inv (snd (saveDocument caller fName fType fSize sid s)) \<and>
      (content \<noteq> [] \<and> content \<noteq> failure_sentinel \<longrightarrow>
         processed_inv (snd (updateParsedContent i content s))) \<and>
      processed_inv (snd (markProcessingFailed i s)) \<and>
      processed_inv (snd (updateDocumentAnalysis i summ cls kws s)) \<and>
      processed_inv (snd (processDocument e i s))) \<and>
   (reachable e s \<and> d \<in> set (documents s) \<and> isProcessed d \<longrightarrow>
      parsedContent d \<noteq> [] \<and> parsedContent d \<noteq> failure_sentinel)"
proof (intro conjI impI)
  show "processed_inv init_state" by (simp add: processed_inv_def init_state_def)
next
  assume "processed_inv s"
  then show "processed_inv (snd (saveDocument caller fName fType fSize sid s))"
    unfolding processed_inv_def
    by (elim list_all_saveDocument) (simp add: processed_ok_def)
next
  assume "processed_inv s" and "content \<noteq> [] \<and> content \<noteq> failure_sentinel"
  then show "processed_inv (snd (updateParsedContent i content s))"
    unfolding processed_inv_def updateParsedContent_def
    by (elim list_all_db_patch) (simp add: processed_ok_def)
next
  assume "processed_inv s"
  then show "processed_inv (snd (markProcessingFailed i s))"
    unfolding processed_inv_def markProcessingFailed_def
    by (elim list_all_db_patch) (simp add: processed_ok_def)
next
  assume "processed_inv s"
  then show "processed_inv (snd (updateDocumentAnalysis i summ cls kws s))"
    unfolding processed_inv_def updateDocumentAnalysis_def
    by (elim list_all_db_patch) (simp add: processed_ok_def)
next
  assume "processed_inv s"
  then show "processed_inv (snd (processDocument e i s))"
    by (rule processed_inv_processDocument)
next
  assume a: "reachable e s \<and> d \<in> set (documents s) \<and> isProcessed d"
  then have "processed_inv s" by (blast intro: processed_inv_reachable)
  with a show "parsedContent d \<noteq> []"
    by (auto simp: processed_inv_def list_all_iff processed_ok_def)
next
  assume a: "reachable e s \<and> d \<in> set (documents s) \<and> isProcessed d"
  then have "processed_inv s" by (blast intro: processed_inv_reachable)
  with a show "parsedContent d \<noteq> failure_sentinel"
    by (auto simp: processed_inv_def list_all_iff processed_ok_def)
qed

text \<open>
  The theorem of C1 on the scenario: the uploaded document, the mutations on it, and
  the document after a run.
\<close>

theorem processed_flag_invariant_witness:
  "processed_inv uploaded_state \<and>
   pdf_placeholder \<noteq> [] \<and> pdf_placeholder \<noteq> failure_sentinel \<and>
   processed_inv (snd (updateParsedContent 0 pdf_placeholder uploaded_state)) \<and>
   processed_inv (snd (markProcessingFailed 0 uploaded_state)) \<and>
   processed_inv (snd (processDocument (mock_env reachable_blob) 0 uploaded_state)) \<and>
   reachable (mock_env reachable_blob) processed_state \<and>
   processed_document \<in> set (documents processed_state) \<and>
   isProcessed processed_document \<and>
   parsedContent processed_document \<noteq> [] \<and>
   parsedContent processed_document \<noteq> failure_sentinel"
proof -
  have h1: "processed_inv uploaded_state"
    by (simp add: processed_inv_def processed_ok_def uploaded_documents uploaded_document_def)
  have h2: "pdf_placeholder \<noteq> [] \<and> pdf_placeholder \<noteq> failure_sentinel"
    by (simp add: placeholder_not_sentinel)
  have h3: "processed_document \<in> set (documents processed_state)"
    using processed_db_get by (blast dest: db_get_Some_mem)
  have h4: "isProcessed processed_document"
    by (simp add: processed_document_def)
  note a = processed_flag_invariant [of uploaded_state "Some 1" "''report.pdf''" "''pdf''"
      2097152 7 pdf_placeholder 0 "''s''" "''c''" "[]" "mock_env reachable_blob"
      uploaded_document]
  note b = processed_flag_invariant [of processed_state "Some 1" "''report.pdf''" "''pdf''"
      2097152 7 pdf_placeholder 0 "''s''" "''c''" "[]" "mock_env reachable_blob"
      processed_document]
  show ?thesis
    using a b h1 h2 h3 h4 reachable_processed by blast
qed

text \<open>
  C1 as it is stated fails for \<^verbatim>\<open>updateParsedContent\<close> taken alone: the mutation
  accepts any string and always sets the flag, so the empty string and the sentinel both
  leave a flagged document that breaks the property.
\<close>

theorem updateParsedContent_breaks_invariant:
  "processed_inv uploaded_state \<and>
   \<not> processed_inv (snd (updateParsedContent 0 [] uploaded_state)) \<and>
   \<not> processed_inv (snd (updateParsedContent 0 failure_sentinel uploaded_state))"
  by (simp add: processed_inv_def processed_ok_def uploaded_documents
      updateParsedContent_def db_patch_def db_get_def uploaded_document_def)


subsection \<open>C2: extraction failure\<close>

text \<open>
  C2. When the document exists and extraction throws (no URL for the blob, a fetch that
  throws, or a declared type other than \<^verbatim>\<open>pdf\<close> and \<^verbatim>\<open>docx\<close>), the run of
  \<^verbatim>\<open>processDocument\<close> returns normally, the document has its flag cleared and the
  sentinel as parsed content, the only call made in the run is \<^verbatim>\<open>markProcessingFailed\<close>
  (so \<^verbatim>\<open>analyzeDocument\<close> is not invoked), no job is scheduled and no analysis record
  is written.
\<close>

theorem extraction_failure_is_terminal:
  assumes "getDocumentForProcessing i s = Some d" and "extraction_throws e s d"
  shows "fst (processDocument e i s) = Ok () \<and>
         db_get (documents (snd (processDocument e i s))) i
           = Some (d\<lparr>isProcessed := False, parsedContent := failure_sentinel\<rparr>) \<and>
         calls (snd (processDocument e i s)) = calls s @ [Call_markProcessingFailed i] \<and>
         (\<forall>j. Call_analyzeDocument j
            \<notin> set (drop (length (calls s)) (calls (snd (processDocument e i s))))) \<and>
         scheduled (snd (processDocument e i s)) = scheduled s \<and>
         documentAnalysis (snd (processDocument e i s)) = documentAnalysis s"
proof -
  obtain err where t: "process_try e i d s = (Throw err, s)"
    using process_try_extraction_throws [OF assms(2)] by blast
  have g: "db_get (documents s) i = Some d"
    using assms(1) by (simp add: getDocumentForProcessing_def)
  show ?thesis
    using assms(1) t g
    by (simp add: processDocument_def markProcessingFailed_def db_patch_def
        db_get_patched record_call_def console_error_def)
qed

text \<open>
  The theorem of C2 on the three causes: a fetch that throws, the type \<^verbatim>\<open>txt\<close>, and
  a blob that is not in the store.
\<close>

theorem extraction_failure_is_terminal_witness:
  "getDocumentForProcessing 0 uploaded_state = Some uploaded_document \<and>
   extraction_throws (mock_env unreachable_blob) uploaded_state uploaded_document \<and>
   fst (processDocument (mock_env unreachable_blob) 0 uploaded_state) = Ok () \<and>
   db_get (documents (snd (processDocument (mock_env unreachable_blob) 0 uploaded_state))) 0
     = Some (uploaded_document\<lparr>isProcessed := False, parsedContent := failure_sentinel\<rparr>) \<and>
   calls (snd (processDocument (mock_env unreachable_blob) 0 uploaded_state))
     = [Call_markProcessingFailed 0] \<and>
   scheduled (snd (processDocument (mock_env unreachable_blob) 0 uploaded_state)) = [0] \<and>
   extraction_throws (mock_env reachable_blob) txt_state txt_document \<and>
   db_get (documents (snd (processDocument (mock_env reachable_blob) 0 txt_state))) 0
     = Some (txt_document\<lparr>isProcessed := False, parsedContent := failure_sentinel\<rparr>) \<and>
   extraction_throws (mock_env reachable_blob) blobless_state uploaded_document \<and>
   db_get (documents (snd (processDocument (mock_env reachable_blob) 0 blobless_state))) 0
     = Some (uploaded_document\<lparr>isProcessed := False, parsedContent := failure_sentinel\<rparr>)"
proof -
  have h1: "extraction_throws (mock_env unreachable_blob) uploaded_state uploaded_document"
    by (simp add: extraction_throws_iff uploaded_url mock_env_def unreachable_blob_def)
  have h2: "extraction_throws (mock_env reachable_blob) txt_state txt_document"
    by (simp add: extraction_throws_iff txt_document_def split: option.splits)
  have h3: "extraction_throws (mock_env reachable_blob) blobless_state uploaded_document"
    by (simp add: extraction_throws_iff getUrl_def blobless_state_def saveDocument_def
        init_state_def)
  have c: "calls uploaded_state = []" "scheduled uploaded_state = [0]"
    by (simp_all add: uploaded_state_def stored_state_def saveDocument_def init_state_def)
  show ?thesis
    using extraction_failure_is_terminal [OF uploaded_get h1]
      extraction_failure_is_terminal [OF txt_get h2]
      extraction_failure_is_terminal [OF blobless_get h3]
      uploaded_get h1 h2 h3 c
    by simp
qed


subsection \<open>C3: analysis failure\<close>

text \<open>
  C3. \<^verbatim>\<open>analyzeDocument\<close> never throws; whenever the body of its \<^verbatim>\<open>try\<close> throws,
  for whatever reason, the documents table is as it was and one line is logged. In a
  run of \<^verbatim>\<open>processDocument\<close> whose extraction succeeded and in which one of the four
  model calls throws, the run returns normally, the document is the old one with the
  extracted content and the flag set (so its summary, classification and keywords are
  what they were, unset for a fresh upload), no analysis record is written and
  \<^verbatim>\<open>markProcessingFailed\<close> is not called. The same holds of the document when the
  platform rejects one of the writes of the analysis step (one of the four inserts of an
  analysis record, or the final update of the document): the run returns normally and
  the document has the extracted content, the flag set and its summary, classification
  and keywords as they were, because the update of the document is the last write and
  writes its three fields in one transaction.
\<close>

theorem analysis_failure_is_swallowed:
  "fst (analyzeDocument e i c s) = Ok () \<and>
   (fst (analyze_try e i c s) = Throw err \<longrightarrow>
      documents (snd (analyzeDocument e i c s)) = documents s \<and>
      console (snd (analyzeDocument e i c s))
        = console s @ [''AI analysis failed: '' @ error_to_string err]) \<and>
   (getDocumentForProcessing i s = Some d \<and> getUrl s (storageId d) = Some url \<and> url \<noteq> [] \<and>
    parseDocumentContent e url (fileType d) = Ok c \<and>
    (isl (model e ''summary'' c) \<or> isl (model e ''classification'' c) \<or>
     isl (model e ''keywords'' c) \<or> isl (model e ''insights'' c)) \<longrightarrow>
      fst (processDocument e i s) = Ok () \<and>
      db_get (documents (snd (processDocument e i s))) i
        = Some (d\<lparr>parsedContent := c, isProcessed := True\<rparr>) \<and>
      documentAnalysis (snd (processDocument e i s)) = documentAnalysis s \<and>
      calls (snd (processDocument e i s))
        = calls s @ [Call_updateParsedContent i, Call_analyzeDocument i]) \<and>
   (getDocumentForProcessing i s = Some d \<and> getUrl s (storageId d) = Some url \<and> url \<noteq> [] \<and>
    parseDocumentContent e url (fileType d) = Ok c \<and>
    (mutation_fails e (Call_saveAnalysis i ''summary'') \<noteq> None \<or>
     mutation_fails e (Call_saveAnalysis i ''classification'') \<noteq> None \<or>
     mutation_fails e (Call_saveAnalysis i ''keywords'') \<noteq> None \<or>
     mutation_fails e (Call_saveAnalysis i ''insights'') \<noteq> None \<or>
     mutation_fails e (Call_updateDocumentAnalysis i) \<noteq> None) \<longrightarrow>
      fst (processDocument e i s) = Ok () \<and>
      (\<exists>d'. db_get (documents (snd (processDocument e i s))) i = Some d' \<and>
            d' = d\<lparr>parsedContent := c, isProcessed := True\<rparr> \<and>
            summary d' = summary d \<and> classification d' = classification d \<and>
            keywordList d' = keywordList d))"
proof (intro conjI impI)
  show "fst (analyzeDocument e i c s) = Ok ()" by (rule analyzeDocument_returns)
next
  assume t: "fst (analyze_try e i c s) = Throw err"
  from analyzeDocument_after_Throw [OF t]
  show "documents (snd (analyzeDocument e i c s)) = documents s" by simp
next
  assume t: "fst (analyze_try e i c s) = Throw err"
  from analyzeDocument_after_Throw [OF t]
  show "console (snd (analyzeDocument e i c s))
        = console s @ [''AI analysis failed: '' @ error_to_string err]" by simp
next
  assume a: "getDocumentForProcessing i s = Some d \<and> getUrl s (storageId d) = Some url \<and> url \<noteq> [] \<and>
    parseDocumentContent e url (fileType d) = Ok c \<and>
    (isl (model e ''summary'' c) \<or> isl (model e ''classification'' c) \<or>
     isl (model e ''keywords'' c) \<or> isl (model e ''insights'' c))"
  then obtain err where p: "promise_all
           [analyzeWithAI e c ''summary'', analyzeWithAI e c ''classification'',
            analyzeWithAI e c ''keywords'', analyzeWithAI e c ''insights''] = Throw err"
    using promise_all_four_Throw by blast
  have g: "db_get (documents s) i = Some d"
    using a by (simp add: getDocumentForProcessing_def)
  let ?s1 = "(record_call (Call_updateParsedContent i) s)
               \<lparr>documents := map (\<lambda>x. if doc_id x = i
                   then x\<lparr>parsedContent := c, isProcessed := True\<rparr> else x) (documents s)\<rparr>"
  have u: "updateParsedContent i c (record_call (Call_updateParsedContent i) s) = (Ok (), ?s1)"
    using g by (simp add: updateParsedContent_def db_patch_def record_call_def)
  have g1: "getDocumentForProcessing i (record_call (Call_analyzeDocument i) ?s1)
              = Some (d\<lparr>parsedContent := c, isProcessed := True\<rparr>)"
    using g by (simp add: getDocumentForProcessing_def db_get_patched record_call_def)
  have an: "analyzeDocument e i c (record_call (Call_analyzeDocument i) ?s1)
             = (Ok (), console_error ''AI analysis failed:'' err
                         (record_call (Call_analyzeDocument i) ?s1))"
    using g1 p by (simp add: analyzeDocument_def analyze_try_def)
  have pd: "processDocument e i s
              = (Ok (), console_error ''AI analysis failed:'' err
                         (record_call (Call_analyzeDocument i) ?s1))"
    using a u an by (simp add: processDocument_def process_try_def)
  show "fst (processDocument e i s) = Ok ()" by (simp add: pd)
  show "db_get (documents (snd (processDocument e i s))) i
        = Some (d\<lparr>parsedContent := c, isProcessed := True\<rparr>)"
    using g by (simp add: pd db_get_patched)
  show "documentAnalysis (snd (processDocument e i s)) = documentAnalysis s"
    by (simp add: pd console_error_def record_call_def)
  show "calls (snd (processDocument e i s))
        = calls s @ [Call_updateParsedContent i, Call_analyzeDocument i]"
    by (simp add: pd console_error_def record_call_def)
next
  assume a: "getDocumentForProcessing i s = Some d \<and> getUrl s (storageId d) = Some url \<and> url \<noteq> [] \<and>
    parseDocumentContent e url (fileType d) = Ok c \<and>
    (mutation_fails e (Call_saveAnalysis i ''summary'') \<noteq> None \<or>
     mutation_fails e (Call_saveAnalysis i ''classification'') \<noteq> None \<or>
     mutation_fails e (Call_saveAnalysis i ''keywords'') \<noteq> None \<or>
     mutation_fails e (Call_saveAnalysis i ''insights'') \<noteq> None \<or>
     mutation_fails e (Call_updateDocumentAnalysis i) \<noteq> None)"
  define s2 where "s2 = record_call (Call_analyzeDocument i)
              ((record_call (Call_updateParsedContent i) s)
                 \<lparr>documents := map (\<lambda>x. if doc_id x = i
                     then x\<lparr>parsedContent := c, isProcessed := True\<rparr> else x)
                   (documents s)\<rparr>)"
  have g: "db_get (documents s) i = Some d"
    using a by (simp add: getDocumentForProcessing_def)
  have a1: "getDocumentForProcessing i s = Some d" and a2: "getUrl s (storageId d) = Some url"
    and a3: "url \<noteq> []" and a4: "parseDocumentContent e url (fileType d) = Ok c"
    using a by simp_all
  have pd: "processDocument e i s = (Ok (), snd (analyzeDocument e i c s2))"
    unfolding s2_def using a1 a2 a3 a4 by (rule processDocument_extracted)
  have "fst (analyze_try e i c s2) \<noteq> Ok ()"
    using analyze_try_Ok_no_fault [of e i c s2] a by (auto simp: analysis_kinds_def)
  then obtain err where t: "fst (analyze_try e i c s2) = Throw err"
    by (cases "fst (analyze_try e i c s2)") simp_all
  have docs: "documents (snd (analyzeDocument e i c s2)) = documents s2"
    using analyzeDocument_after_Throw [OF t] by simp
  have g2: "db_get (documents s2) i = Some (d\<lparr>parsedContent := c, isProcessed := True\<rparr>)"
    using g by (simp add: s2_def db_get_patched)
  show "fst (processDocument e i s) = Ok ()" by (simp add: pd)
  show "\<exists>d'. db_get (documents (snd (processDocument e i s))) i = Some d' \<and>
            d' = d\<lparr>parsedContent := c, isProcessed := True\<rparr> \<and>
            summary d' = summary d \<and> classification d' = classification d \<and>
            keywordList d' = keywordList d"
    by (simp add: pd docs g2)
qed

text \<open>
  The theorem of C3 on the scenario: with a model that throws on the \<^verbatim>\<open>keywords\<close>
  request; with a platform that rejects the insert of the \<^verbatim>\<open>keywords\<close> record, after
  the records of the summary and of the classification have been written; and with a
  platform that rejects the final update of the document, after the four records. In
  each run the document keeps the flag and the content, and its three fields stay unset.
\<close>

theorem analysis_failure_is_swallowed_witness:
  "getDocumentForProcessing 0 uploaded_state = Some uploaded_document \<and>
   getUrl uploaded_state (storageId uploaded_document) = Some blob_url \<and> blob_url \<noteq> [] \<and>
   parseDocumentContent keywords_outage blob_url (fileType uploaded_document)
     = Ok pdf_placeholder \<and>
   isl (model keywords_outage ''keywords'' pdf_placeholder) \<and>
   fst (processDocument keywords_outage 0 uploaded_state) = Ok () \<and>
   db_get (documents (snd (processDocument keywords_outage 0 uploaded_state))) 0
     = Some (uploaded_document\<lparr>parsedContent := pdf_placeholder, isProcessed := True\<rparr>) \<and>
   summary (uploaded_document\<lparr>parsedContent := pdf_placeholder, isProcessed := True\<rparr>) = None \<and>
   classification (uploaded_document\<lparr>parsedContent := pdf_placeholder, isProcessed := True\<rparr>)
     = None \<and>
   keywordList (uploaded_document\<lparr>parsedContent := pdf_placeholder, isProcessed := True\<rparr>)
     = None \<and>
   documentAnalysis (snd (processDocument keywords_outage 0 uploaded_state)) = [] \<and>
   fst (analyze_try keywords_outage 0 pdf_placeholder uploaded_state)
     = Throw (Error ''AI analysis failed: Error: model unavailable'') \<and>
   documents (snd (analyzeDocument keywords_outage 0 pdf_placeholder uploaded_state))
     = documents uploaded_state \<and>
   parseDocumentContent insert_outage blob_url (fileType uploaded_document)
     = Ok pdf_placeholder \<and>
   mutation_fails insert_outage (Call_saveAnalysis 0 ''keywords'') \<noteq> None \<and>
   fst (processDocument insert_outage 0 uploaded_state) = Ok () \<and>
   db_get (documents (snd (processDocument insert_outage 0 uploaded_state))) 0
     = Some (uploaded_document\<lparr>parsedContent := pdf_placeholder, isProcessed := True\<rparr>) \<and>
   fst (analyze_try insert_outage 0 pdf_placeholder uploaded_state)
     = Throw (Error ''Transaction rejected'') \<and>
   map analysisType
       (documentAnalysis (snd (analyze_try insert_outage 0 pdf_placeholder uploaded_state)))
     = [''summary'', ''classification''] \<and>
   documents (snd (analyzeDocument insert_outage 0 pdf_placeholder uploaded_state))
     = documents uploaded_state \<and>
   parseDocumentContent patch_outage blob_url (fileType uploaded_document)
     = Ok pdf_placeholder \<and>
   mutation_fails patch_outage (Call_updateDocumentAnalysis 0) \<noteq> None \<and>
   fst (processDocument patch_outage 0 uploaded_state) = Ok () \<and>
   db_get (documents (snd (processDocument patch_outage 0 uploaded_state))) 0
     = Some (uploaded_document\<lparr>parsedContent := pdf_placeholder, isProcessed := True\<rparr>) \<and>
   fst (analyze_try patch_outage 0 pdf_placeholder uploaded_state)
     = Throw (Error ''Transaction rejected'') \<and>
   map analysisType
       (documentAnalysis (snd (analyze_try patch_outage 0 pdf_placeholder uploaded_state)))
     = [''summary'', ''classification'', ''keywords'', ''insights'']"
proof -
  have h1: "parseDocumentContent keywords_outage blob_url (fileType uploaded_document)
     = Ok pdf_placeholder"
    by (simp add: parseDocumentContent_def parse_try_def keywords_outage_def
        reachable_blob_def uploaded_document_def)
  have h2: "isl (model keywords_outage ''keywords'' pdf_placeholder)"
    by (simp add: keywords_outage_def)
  have h3: "fst (analyze_try keywords_outage 0 pdf_placeholder uploaded_state)
     = Throw (Error ''AI analysis failed: Error: model unavailable'')"
    by (simp add: analyze_try_def uploaded_get analyzeWithAI_def keywords_outage_def
        generateMockResponse_def)
  have c: "documentAnalysis uploaded_state = []"
    by (simp add: uploaded_state_def stored_state_def saveDocument_def init_state_def)
  have i1: "parseDocumentContent insert_outage blob_url (fileType uploaded_document)
     = Ok pdf_placeholder"
    by (simp add: parseDocumentContent_def parse_try_def insert_outage_def
        reachable_blob_def uploaded_document_def)
  have i2: "mutation_fails insert_outage (Call_saveAnalysis 0 ''keywords'') \<noteq> None"
    by (simp add: insert_outage_def)
  have i3: "fst (analyze_try insert_outage 0 pdf_placeholder uploaded_state)
     = Throw (Error ''Transaction rejected'')"
    by (simp add: analyze_try_def uploaded_get analyzeWithAI_def insert_outage_def
        analysis_kinds_def run_saveAnalysis_def Let_def)
  have i4: "map analysisType
       (documentAnalysis (snd (analyze_try insert_outage 0 pdf_placeholder uploaded_state)))
     = [''summary'', ''classification'']"
    by (simp add: analyze_try_def uploaded_get analyzeWithAI_def insert_outage_def
        analysis_kinds_def run_saveAnalysis_def Let_def saveAnalysis_def record_call_def c)
  have p1: "parseDocumentContent patch_outage blob_url (fileType uploaded_document)
     = Ok pdf_placeholder"
    by (simp add: parseDocumentContent_def parse_try_def patch_outage_def
        reachable_blob_def uploaded_document_def)
  have p2: "mutation_fails patch_outage (Call_updateDocumentAnalysis 0) \<noteq> None"
    by (simp add: patch_outage_def)
  have p3: "fst (analyze_try patch_outage 0 pdf_placeholder uploaded_state)
     = Throw (Error ''Transaction rejected'')"
    by (simp add: analyze_try_def uploaded_get analyzeWithAI_def patch_outage_def
        analysis_kinds_def run_saveAnalysis_def run_updateDocumentAnalysis_def Let_def)
  have p4: "map analysisType
       (documentAnalysis (snd (analyze_try patch_outage 0 pdf_placeholder uploaded_state)))
     = [''summary'', ''classification'', ''keywords'', ''insights'']"
    by (simp add: analyze_try_def uploaded_get analyzeWithAI_def patch_outage_def
        analysis_kinds_def run_saveAnalysis_def run_updateDocumentAnalysis_def Let_def
        saveAnalysis_def record_call_def c)
  note a = analysis_failure_is_swallowed [of keywords_outage 0 pdf_placeholder uploaded_state
      "Error ''AI analysis failed: Error: model unavailable''" uploaded_document blob_url]
  note b = analysis_failure_is_swallowed [of insert_outage 0 pdf_placeholder uploaded_state
      "Error ''Transaction rejected''" uploaded_document blob_url]
  note d = analysis_failure_is_swallowed [of patch_outage 0 pdf_placeholder uploaded_state
      "Error ''Transaction rejected''" uploaded_document blob_url]
  have ka: "fst (processDocument keywords_outage 0 uploaded_state) = Ok () \<and>
      db_get (documents (snd (processDocument keywords_outage 0 uploaded_state))) 0
        = Some (uploaded_document\<lparr>parsedContent := pdf_placeholder, isProcessed := True\<rparr>) \<and>
      documentAnalysis (snd (processDocument keywords_outage 0 uploaded_state)) = [] \<and>
      documents (snd (analyzeDocument keywords_outage 0 pdf_placeholder uploaded_state))
        = documents uploaded_state"
    using a uploaded_get uploaded_url blob_url_not_empty h1 h2 h3 c by simp
  have kb: "fst (processDocument insert_outage 0 uploaded_state) = Ok () \<and>
      db_get (documents (snd (processDocument insert_outage 0 uploaded_state))) 0
        = Some (uploaded_document\<lparr>parsedContent := pdf_placeholder, isProcessed := True\<rparr>) \<and>
      documents (snd (analyzeDocument insert_outage 0 pdf_placeholder uploaded_state))
        = documents uploaded_state"
    using b uploaded_get uploaded_url blob_url_not_empty i1 i2 i3 by simp
  have kd: "fst (processDocument patch_outage 0 uploaded_state) = Ok () \<and>
      db_get (documents (snd (processDocument patch_outage 0 uploaded_state))) 0
        = Some (uploaded_document\<lparr>parsedContent := pdf_placeholder, isProcessed := True\<rparr>)"
    using d uploaded_get uploaded_url blob_url_not_empty p1 p2 by simp
  have f: "summary (uploaded_document\<lparr>parsedContent := pdf_placeholder, isProcessed := True\<rparr>)
             = None"
    "classification (uploaded_document\<lparr>parsedContent := pdf_placeholder, isProcessed := True\<rparr>)
       = None"
    "keywordList (uploaded_document\<lparr>parsedContent := pdf_placeholder, isProcessed := True\<rparr>)
       = None"
    by (simp_all add: uploaded_document_def)
  show ?thesis
    using uploaded_get uploaded_url blob_url_not_empty h1 h2 h3 ka kb kd f i1 i2 i3 i4
      p1 p2 p3 p4
    by (intro conjI) (simp_all only: simp_thms)
qed

subsection \<open>C4: summary, classification and keywords together\<close>

text \<open>
  C4. In every state the application can reach, each document has its summary,
  classification and keywords all absent or all present. The property holds of the
  empty database and is kept by every operation, whatever its arguments.
\<close>

theorem analysis_fields_all_or_none:
  "fields_inv init_state \<and>
   (fields_inv s \<longrightarrow>
      fields_inv (snd (saveDocument caller fName fType fSize sid s)) \<and>
      fields_inv (snd (updateParsedContent i content s)) \<and>
      fields_inv (snd (markProcessingFailed i s)) \<and>
      fields_inv (snd (updateDocumentAnalysis i summ cls kws s)) \<and>
      fields_inv (snd (analyzeDocument e i content s)) \<and>
      fields_inv (snd (processDocument e i s)) \<and>
      fields_inv (snd (deleteDocument caller i s))) \<and>
   (reachable e s \<and> d \<in> set (documents s) \<longrightarrow> fields_together d)"
proof (intro conjI impI)
  show "fields_inv init_state" by (simp add: fields_inv_def init_state_def)
next
  assume "fields_inv s"
  then show "fields_inv (snd (saveDocument caller fName fType fSize sid s))"
    unfolding fields_inv_def
    by (elim list_all_saveDocument) (simp add: fields_together_def)
next
  assume "fields_inv s"
  then show "fields_inv (snd (updateParsedContent i content s))"
    unfolding fields_inv_def updateParsedContent_def
    by (elim list_all_db_patch) (simp add: fields_together_def)
next
  assume "fields_inv s"
  then show "fields_inv (snd (markProcessingFailed i s))"
    unfolding fields_inv_def markProcessingFailed_def
    by (elim list_all_db_patch) (simp add: fields_together_def)
next
  assume "fields_inv s"
  then show "fields_inv (snd (updateDocumentAnalysis i summ cls kws s))"
    unfolding fields_inv_def updateDocumentAnalysis_def
    by (elim list_all_db_patch) (simp add: fields_together_def)
next
  assume "fields_inv s"
  then show "fields_inv (snd (analyzeDocument e i content s))"
    unfolding fields_inv_def
    by (elim list_all_analyzeDocument) (simp add: fields_together_def)
next
  assume "fields_inv s"
  then show "fields_inv (snd (processDocument e i s))"
    by (rule fields_inv_processDocument)
next
  assume "fields_inv s"
  then show "fields_inv (snd (deleteDocument caller i s))"
    unfolding fields_inv_def by (rule list_all_deleteDocument)
next
  assume a: "reachable e s \<and> d \<in> set (documents s)"
  then have "fields_inv s" by (blast intro: fields_inv_reachable)
  with a show "fields_together d"
    by (auto simp: fields_inv_def list_all_iff)
qed

text \<open>
  The theorem of C4 on the scenario, before and after a run.
\<close>

theorem analysis_fields_all_or_none_witness:
  "fields_inv uploaded_state \<and>
   fields_inv (snd (updateDocumentAnalysis 0 ''s'' ''c'' [''k''] uploaded_state)) \<and>
   fields_inv (snd (processDocument (mock_env reachable_blob) 0 uploaded_state)) \<and>
   reachable (mock_env reachable_blob) processed_state \<and>
   processed_document \<in> set (documents processed_state) \<and>
   fields_together processed_document \<and>
   summary processed_document \<noteq> None"
proof -
  have h1: "fields_inv uploaded_state"
    by (simp add: fields_inv_def fields_together_def uploaded_documents uploaded_document_def)
  have h3: "processed_document \<in> set (documents processed_state)"
    using processed_db_get by (blast dest: db_get_Some_mem)
  have h4: "summary processed_document \<noteq> None"
    by (simp add: processed_document_def)
  note a = analysis_fields_all_or_none [of uploaded_state "Some 1" "''report.pdf''" "''pdf''"
      2097152 7 0 pdf_placeholder "''s''" "''c''" "[''k'']" "mock_env reachable_blob"
      uploaded_document]
  note b = analysis_fields_all_or_none [of processed_state "Some 1" "''report.pdf''" "''pdf''"
      2097152 7 0 pdf_placeholder "''s''" "''c''" "[''k'']" "mock_env reachable_blob"
      processed_document]
  show ?thesis
    using a b h1 h3 h4 reachable_processed by blast
qed


subsection \<open>C5: a successful run\<close>

text \<open>
  C5. A run of \<^verbatim>\<open>processDocument\<close>, with the model of the repository, on a document
  whose extraction succeeds returns normally; the document then has the flag set, the
  extracted content, the summary of the model, the classification \<^verbatim>\<open>Business\<close> (the
  fixed reply of the model to a classification request) and as keywords the reply to the
  keywords request split at the commas and trimmed, a list of eight terms; exactly four
  analysis records are appended, of the kinds summary, classification, keywords and
  insights in this order, each with confidence 0.85.
\<close>

theorem successful_run_results:
  assumes "getDocumentForProcessing i s = Some d"
    and "getUrl s (storageId d) = Some url" and "url \<noteq> []"
    and "parseDocumentContent (mock_env f) url (fileType d) = Ok c"
  shows "fst (processDocument (mock_env f) i s) = Ok () \<and>
     db_get (documents (snd (processDocument (mock_env f) i s))) i
       = Some (d\<lparr>parsedContent := c, isProcessed := True,
                  summary := Some (generateMockResponse ''summary'' c),
                  classification := Some ''Business'',
                  keywordList := Some (map trim (split_on CHR '',''
                     (generateMockResponse ''keywords'' c)))\<rparr>) \<and>
     map trim (split_on CHR '','' (generateMockResponse ''keywords'' c))
       = [''business'', ''strategy'', ''implementation'', ''process'', ''guidelines'',
          ''management'', ''operations'', ''efficiency''] \<and>
     documentAnalysis (snd (processDocument (mock_env f) i s))
       = documentAnalysis s @
         map (\<lambda>(n, kind). \<lparr>analysis_id = next_id s + n, documentId = i,
                analysisUserId = userId d, analysisType = kind,
                result = generateMockResponse kind c, confidence = 0.85,
                createdAt = now s\<rparr>)
           [(0, ''summary''), (1, ''classification''), (2, ''keywords''), (3, ''insights'')]"
proof -
  define s2 where "s2 = record_call (Call_analyzeDocument i)
              ((record_call (Call_updateParsedContent i) s)
                 \<lparr>documents := map (\<lambda>x. if doc_id x = i
                     then x\<lparr>parsedContent := c, isProcessed := True\<rparr> else x)
                   (documents s)\<rparr>)"
  define d0 where "d0 = d\<lparr>parsedContent := c, isProcessed := True\<rparr>"
  have g: "db_get (documents s) i = Some d"
    using assms(1) by (simp add: getDocumentForProcessing_def)
  have pd: "processDocument (mock_env f) i s
              = (Ok (), snd (analyzeDocument (mock_env f) i c s2))"
    unfolding s2_def using assms by (rule processDocument_extracted)
  have g2: "getDocumentForProcessing i s2 = Some d0"
    using g by (simp add: s2_def d0_def getDocumentForProcessing_def db_get_patched
        record_call_def)
  have s2_fields: "documentAnalysis s2 = documentAnalysis s" "next_id s2 = next_id s"
    "now s2 = now s"
    by (simp_all add: s2_def record_call_def)
  note m = analyzeDocument_mock [OF g2, of f c]
  have cls: "generateMockResponse ''classification'' c = ''Business''"
    by (simp add: generateMockResponse_def)
  have 1: "db_get (documents (snd (processDocument (mock_env f) i s))) i
       = Some (d\<lparr>parsedContent := c, isProcessed := True,
                  summary := Some (generateMockResponse ''summary'' c),
                  classification := Some ''Business'',
                  keywordList := Some (map trim (split_on CHR '',''
                     (generateMockResponse ''keywords'' c)))\<rparr>)"
    using m by (simp add: pd d0_def cls)
  have 2: "documentAnalysis (snd (processDocument (mock_env f) i s))
       = documentAnalysis s @
         map (\<lambda>(n, kind). \<lparr>analysis_id = next_id s + n, documentId = i,
                analysisUserId = userId d, analysisType = kind,
                result = generateMockResponse kind c, confidence = 0.85,
                createdAt = now s\<rparr>)
           [(0, ''summary''), (1, ''classification''), (2, ''keywords''), (3, ''insights'')]"
    using m by (simp add: pd s2_fields d0_def)
  have 3: "fst (processDocument (mock_env f) i s) = Ok ()" by (simp add: pd)
  from 3 1 mock_keywords 2 show ?thesis by (intro conjI)
qed

text \<open>
  The theorem of C5 on the scenario of the specification.
\<close>

theorem successful_run_results_witness:
  "getDocumentForProcessing 0 uploaded_state = Some uploaded_document \<and>
   getUrl uploaded_state (storageId uploaded_document) = Some blob_url \<and> blob_url \<noteq> [] \<and>
   parseDocumentContent (mock_env reachable_blob) blob_url (fileType uploaded_document)
     = Ok pdf_placeholder \<and>
   fst (processDocument (mock_env reachable_blob) 0 uploaded_state) = Ok () \<and>
   db_get (documents (snd (processDocument (mock_env reachable_blob) 0 uploaded_state))) 0
     = Some processed_document \<and>
   isProcessed processed_document \<and>
   classification processed_document = Some ''Business'' \<and>
   map analysisType
       (documentAnalysis (snd (processDocument (mock_env reachable_blob) 0 uploaded_state)))
     = [''summary'', ''classification'', ''keywords'', ''insights''] \<and>
   map confidence
       (documentAnalysis (snd (processDocument (mock_env reachable_blob) 0 uploaded_state)))
     = [0.85, 0.85, 0.85, 0.85]"
proof -
  have c: "documentAnalysis uploaded_state = []"
    by (simp add: uploaded_state_def stored_state_def saveDocument_def init_state_def)
  note r = successful_run_results [OF uploaded_get uploaded_url blob_url_not_empty
      uploaded_parse]
  have 1: "db_get (documents (snd (processDocument (mock_env reachable_blob) 0 uploaded_state))) 0
     = Some processed_document"
    using r by (simp add: processed_document_def)
  have 2: "map analysisType
       (documentAnalysis (snd (processDocument (mock_env reachable_blob) 0 uploaded_state)))
     = [''summary'', ''classification'', ''keywords'', ''insights'']"
    using r by (simp add: c)
  have 3: "map confidence
       (documentAnalysis (snd (processDocument (mock_env reachable_blob) 0 uploaded_state)))
     = [0.85, 0.85, 0.85, 0.85]"
    using r by (simp add: c)
  have 4: "isProcessed processed_document"
    "classification processed_document = Some ''Business''"
    by (simp_all add: processed_document_def)
  from uploaded_get uploaded_url blob_url_not_empty uploaded_parse r [THEN conjunct1] 1 4 2 3
  show ?thesis by (intro conjI)
qed


subsection \<open>C6: a declared type outside pdf and docx\<close>

text \<open>
  C6, as amended. For a declared type other than \<^verbatim>\<open>pdf\<close> and \<^verbatim>\<open>docx\<close> the
  extractor throws for every locator; the error is the unsupported-type error when the
  fetch of the locator returns, and the error of the fetch when the fetch throws, since
  the fetch comes first. The \<^verbatim>\<open>try\<close> of \<^verbatim>\<open>processDocument\<close> has written nothing when it
  throws on such a document.
\<close>

theorem unsupported_type_always_fails:
  assumes "fType \<noteq> ''pdf''" and "fType \<noteq> ''docx''"
  shows "parseDocumentContent e url fType
           = Throw (Error (''Failed to parse document: '' @
               (case fetch e url of
                  Inl t \<Rightarrow> t
                | Inr u \<Rightarrow> ''Error: Unsupported file type: '' @ fType))) \<and>
         (fileType d = fType \<longrightarrow> (\<exists>err. process_try e i d s = (Throw err, s)))"
  using assms
  by (auto simp: parseDocumentContent_def parse_try_def process_try_def
      split: sum.splits option.splits)

text \<open>
  The theorem of C6 on the type \<^verbatim>\<open>txt\<close> and a locator that can be fetched.
\<close>

theorem unsupported_type_always_fails_witness:
  "''txt'' \<noteq> ''pdf'' \<and> ''txt'' \<noteq> ''docx'' \<and>
   parseDocumentContent (mock_env reachable_blob) blob_url ''txt''
     = Throw (Error ''Failed to parse document: Error: Unsupported file type: txt'') \<and>
   fileType txt_document = ''txt'' \<and>
   (\<exists>err. process_try (mock_env reachable_blob) 0 txt_document txt_state
            = (Throw err, txt_state))"
proof -
  have h1: "''txt'' \<noteq> ''pdf''" and h2: "''txt'' \<noteq> ''docx''" by simp_all
  have h3: "fileType txt_document = ''txt''" by (simp add: txt_document_def)
  show ?thesis
    using unsupported_type_always_fails [OF h1 h2, of "mock_env reachable_blob" blob_url
        txt_document 0 txt_state] h3
    by (simp add: mock_env_def reachable_blob_def)
qed

text \<open>
  C6 as it is stated fails on a locator whose fetch throws: the error thrown for the
  type \<^verbatim>\<open>txt\<close> is then the error of the fetch.
\<close>

theorem unsupported_type_behind_fetch_error:
  "parseDocumentContent (mock_env unreachable_blob) blob_url ''txt''
     = Throw (Error ''Failed to parse document: TypeError: fetch failed'') \<and>
   parseDocumentContent (mock_env unreachable_blob) blob_url ''txt''
     \<noteq> Throw (Error ''Failed to parse document: Error: Unsupported file type: txt'')"
  by (simp add: parseDocumentContent_def parse_try_def mock_env_def unreachable_blob_def)


subsection \<open>C7: creation with a declared type outside pdf and docx\<close>

text \<open>
  C7 does not hold of \<^verbatim>\<open>saveDocument\<close>: the mutation called by an authenticated user
  with the declared type \<^verbatim>\<open>txt\<close> returns the new id, inserts the record and schedules
  the processing job.
\<close>

theorem saveDocument_accepts_txt:
  "fst (saveDocument (Some 1) ''notes.txt'' ''txt'' 1024 7 stored_state) = Ok 0 \<and>
   documents (snd (saveDocument (Some 1) ''notes.txt'' ''txt'' 1024 7 stored_state))
     = [\<lparr>doc_id = 0, userId = 1, fileName = ''notes.txt'', fileType = ''txt'',
         fileSize = 1024, storageId = 7, parsedContent = [], uploadTime = 0,
         summary = None, classification = None, keywordList = None, isProcessed = False\<rparr>] \<and>
   scheduled (snd (saveDocument (Some 1) ''notes.txt'' ''txt'' 1024 7 stored_state)) = [0]"
  by (simp add: saveDocument_def stored_state_def init_state_def)


subsection \<open>C8: missing and foreign documents\<close>

text \<open>
  C8. For a caller and a document id, in a state where the document does not exist and
  in a state where it belongs to another user, get-by-id, delete, chat and compare (with
  the id in either position) throw the same error, and delete leaves the state as it
  was.
\<close>

theorem not_found_and_forbidden_alike:
  assumes "db_get (documents s1) i = None"
    and "db_get (documents s2) i = Some d" and "userId d \<noteq> uid"
  shows "getDocument (Some uid) i s1 = Throw (Error ''Document not found or access denied'') \<and>
         getDocument (Some uid) i s2 = Throw (Error ''Document not found or access denied'') \<and>
         deleteDocument (Some uid) i s1
           = (Throw (Error ''Document not found or access denied''), s1) \<and>
         deleteDocument (Some uid) i s2
           = (Throw (Error ''Document not found or access denied''), s2) \<and>
         chatWithDocument e (Some uid) i question s1
           = Throw (Error ''Document not found or access denied'') \<and>
         chatWithDocument e (Some uid) i question s2
           = Throw (Error ''Document not found or access denied'') \<and>
         compareDocuments e (Some uid) i j s1
           = Throw (Error ''Documents not found or access denied'') \<and>
         compareDocuments e (Some uid) i j s2
           = Throw (Error ''Documents not found or access denied'') \<and>
         compareDocuments e (Some uid) j i s1
           = Throw (Error ''Documents not found or access denied'') \<and>
         compareDocuments e (Some uid) j i s2
           = Throw (Error ''Documents not found or access denied'')"
  using assms
  by (auto simp: getDocument_def deleteDocument_def chatWithDocument_def compareDocuments_def
      getDocumentForProcessing_def split: option.splits)

text \<open>
  The theorem of C8 for user 2 and the document of user 1, before and after the
  upload.
\<close>

theorem not_found_and_forbidden_alike_witness:
  "db_get (documents stored_state) 0 = None \<and>
   db_get (documents uploaded_state) 0 = Some uploaded_document \<and>
   userId uploaded_document \<noteq> 2 \<and>
   getDocument (Some 2) 0 stored_state = getDocument (Some 2) 0 uploaded_state \<and>
   fst (deleteDocument (Some 2) 0 stored_state) = fst (deleteDocument (Some 2) 0 uploaded_state) \<and>
   snd (deleteDocument (Some 2) 0 uploaded_state) = uploaded_state \<and>
   chatWithDocument (mock_env reachable_blob) (Some 2) 0 ''What is it?'' stored_state
     = chatWithDocument (mock_env reachable_blob) (Some 2) 0 ''What is it?'' uploaded_state \<and>
   compareDocuments (mock_env reachable_blob) (Some 2) 0 0 stored_state
     = compareDocuments (mock_env reachable_blob) (Some 2) 0 0 uploaded_state \<and>
   getDocument (Some 2) 0 uploaded_state
     = Throw (Error ''Document not found or access denied'')"
proof -
  have h1: "db_get (documents stored_state) 0 = None"
    by (simp add: stored_state_def init_state_def db_get_def)
  have h3: "userId uploaded_document \<noteq> 2" by (simp add: uploaded_document_def)
  show ?thesis
    using not_found_and_forbidden_alike [OF h1 uploaded_db_get h3,
        of "mock_env reachable_blob" "''What is it?''" 0] h1 uploaded_db_get h3
    by simp
qed


subsection \<open>C9: list by owner\<close>

text \<open>
  C9, as amended. For an authenticated caller \<^verbatim>\<open>getUserDocuments\<close> returns the first
  documents of the caller in descending order of upload time, each with its download
  URL. The page size is 50 when no limit is given or the limit is 0 or \<^verbatim>\<open>NaN\<close>, and
  the given limit when it is a positive integer, with no maximum; for a negative, a
  fractional or an infinite limit the query throws. Whatever its size, a page holds
  only documents of the caller, in descending order of upload time, as many as the size
  allows.
\<close>

theorem list_by_owner_page:
  "(limit = None \<or> limit = Some NaN \<or> limit = Some (Num 0) \<longrightarrow>
      getUserDocuments (Some uid) limit s
        = Ok (map (\<lambda>d. (d, getUrl s (storageId d)))
                (take 50 (by_user_and_upload_time_desc uid (documents s))))) \<and>
   (0 < n \<and> limit = Some (Num (real n)) \<longrightarrow>
      getUserDocuments (Some uid) limit s
        = Ok (map (\<lambda>d. (d, getUrl s (storageId d)))
                (take n (by_user_and_upload_time_desc uid (documents s))))) \<and>
   (limit = Some PosInfinity \<or> limit = Some NegInfinity \<or>
    limit = Some (Num r) \<and> (r < 0 \<or> r \<noteq> real_of_int \<lfloor>r\<rfloor>) \<longrightarrow>
      (\<exists>err. getUserDocuments (Some uid) limit s = Throw err)) \<and>
   list_all (\<lambda>d. userId d = uid \<and> d \<in> set (documents s))
     (take k (by_user_and_upload_time_desc uid (documents s))) \<and>
   sorted_wrt (\<lambda>a b. uploadTime b \<le> uploadTime a)
     (take k (by_user_and_upload_time_desc uid (documents s))) \<and>
   length (take k (by_user_and_upload_time_desc uid (documents s)))
     = min k (length (filter (\<lambda>d. userId d = uid) (documents s)))"
proof (intro conjI impI)
  assume "limit = None \<or> limit = Some NaN \<or> limit = Some (Num 0)"
  then show "getUserDocuments (Some uid) limit s
        = Ok (map (\<lambda>d. (d, getUrl s (storageId d)))
                (take 50 (by_user_and_upload_time_desc uid (documents s))))"
    by (auto simp: getUserDocuments_def limit_or_default_def take_query_def)
next
  assume a: "0 < n \<and> limit = Some (Num (real n))"
  then have "limit_or_default limit = Num (real n)"
    by (simp add: limit_or_default_def)
  moreover have "take_query (Num (real n)) xs = Ok (take n xs)" for xs :: "document list"
    by (simp add: take_query_def)
  ultimately show "getUserDocuments (Some uid) limit s
        = Ok (map (\<lambda>d. (d, getUrl s (storageId d)))
                (take n (by_user_and_upload_time_desc uid (documents s))))"
    by (simp add: getUserDocuments_def)
next
  assume "limit = Some PosInfinity \<or> limit = Some NegInfinity \<or>
    limit = Some (Num r) \<and> (r < 0 \<or> r \<noteq> real_of_int \<lfloor>r\<rfloor>)"
  then show "\<exists>err. getUserDocuments (Some uid) limit s = Throw err"
    by (auto simp: getUserDocuments_def limit_or_default_def take_query_def)
next
  have "set (take k (by_user_and_upload_time_desc uid (documents s)))
          \<subseteq> {d \<in> set (documents s). userId d = uid}"
    using set_take_subset [of k "by_user_and_upload_time_desc uid (documents s)"] by simp
  then show "list_all (\<lambda>d. userId d = uid \<and> d \<in> set (documents s))
     (take k (by_user_and_upload_time_desc uid (documents s)))"
    by (auto simp: list_all_iff)
next
  show "sorted_wrt (\<lambda>a b. uploadTime b \<le> uploadTime a)
     (take k (by_user_and_upload_time_desc uid (documents s)))"
    using sorted_by_user by (rule sorted_wrt_take)
next
  show "length (take k (by_user_and_upload_time_desc uid (documents s)))
     = min k (length (filter (\<lambda>d. userId d = uid) (documents s)))"
    by (simp add: min.commute)
qed

text \<open>
  The theorem of C9 for user 1 with 51 documents: no limit gives a page of 50, the
  limit 51 a page of 51, and the limits \<open>-1\<close> and \<open>5/2\<close> make the query throw.
\<close>

theorem list_by_owner_page_witness:
  "length (case getUserDocuments (Some 1) None crowded_state of
             Ok rs \<Rightarrow> rs | Throw err \<Rightarrow> []) = 50 \<and>
   length (case getUserDocuments (Some 1) (Some (Num (real 51))) crowded_state of
             Ok rs \<Rightarrow> rs | Throw err \<Rightarrow> []) = 51 \<and>
   (\<exists>err. getUserDocuments (Some 1) (Some (Num (- 1))) crowded_state = Throw err) \<and>
   (\<exists>err. getUserDocuments (Some 1) (Some (Num (5 / 2))) crowded_state = Throw err)"
proof -
  have r1: "(- 1 :: real) < 0" by simp
  have r2: "(5 / 2 :: real) \<noteq> real_of_int \<lfloor>5 / 2 :: real\<rfloor>" by simp
  note a = list_by_owner_page [of None 1 crowded_state 51 0 50]
  note b = list_by_owner_page [of "Some (Num (real 51))" 1 crowded_state 51 0 51]
  note c = list_by_owner_page [of "Some (Num (- 1))" 1 crowded_state 51 "- 1" 50]
  note d = list_by_owner_page [of "Some (Num (5 / 2))" 1 crowded_state 51 "5 / 2" 50]
  have 1: "length (case getUserDocuments (Some 1) None crowded_state of
             Ok rs \<Rightarrow> rs | Throw err \<Rightarrow> []) = 50"
    using a crowded_owned by simp
  have 2: "length (case getUserDocuments (Some 1) (Some (Num (real 51))) crowded_state of
             Ok rs \<Rightarrow> rs | Throw err \<Rightarrow> []) = 51"
    using b crowded_owned by simp
  have 3: "\<exists>err. getUserDocuments (Some 1) (Some (Num (- 1))) crowded_state = Throw err"
    using c r1 by blast
  have 4: "\<exists>err. getUserDocuments (Some 1) (Some (Num (5 / 2))) crowded_state = Throw err"
    using d r2 by blast
  from 1 2 3 4 show ?thesis by (intro conjI)
qed

text \<open>
  C9 as it is stated fails on the cap: with 51 documents and the limit 51 the page has
  51 entries.
\<close>

theorem page_exceeds_fifty:
  "length (case getUserDocuments (Some 1) (Some (Num 51)) crowded_state of
             Ok rs \<Rightarrow> rs | Throw err \<Rightarrow> []) = 51 \<and> \<not> (51::nat) \<le> 50"
  using crowded_owned
  by (simp add: getUserDocuments_def limit_or_default_def take_query_def)

subsection \<open>C10: chat with an unprocessed document\<close>

text \<open>
  C10. For a document the caller owns, whatever its processing flag,
  \<^verbatim>\<open>chatWithDocument\<close> sends the parsed content and the question, joined as the source
  joins them, to the model under the kind \<^verbatim>\<open>question_answer\<close> and returns the reply
  with confidence 0.85; with the model of the repository it never fails.
\<close>

theorem chat_needs_no_processing:
  assumes "getDocumentForProcessing i s = Some d" and "userId d = uid"
  shows "chatWithDocument e (Some uid) i question s
           = (case model e ''question_answer''
                     (''Document content: '' @ parsedContent d @ [CHR 0x0A, CHR 0x0A]
                        @ ''Question: '' @ question) of
                Inl t \<Rightarrow> Throw (Error ''Failed to analyze document with AI'')
              | Inr answer \<Rightarrow> Ok (answer, 0.85)) \<and>
         chatWithDocument (mock_env f) (Some uid) i question s
           = Ok (''Based on the document content, here is the answer to your question...'',
                 0.85)"
  using assms
  by (auto simp: chatWithDocument_def analyzeWithAI_def mock_env_def generateMockResponse_def
      split: sum.splits)

text \<open>
  The theorem of C10 on the uploaded document (flag clear, content empty) and on the
  failed one (flag clear, sentinel content).
\<close>

theorem chat_needs_no_processing_witness:
  "getDocumentForProcessing 0 uploaded_state = Some uploaded_document \<and>
   userId uploaded_document = 1 \<and> \<not> isProcessed uploaded_document \<and>
   parsedContent uploaded_document = [] \<and>
   chatWithDocument (mock_env reachable_blob) (Some 1) 0 ''What is it?'' uploaded_state
     = Ok (''Based on the document content, here is the answer to your question...'', 0.85) \<and>
   getDocumentForProcessing 0 failed_state
     = Some (uploaded_document\<lparr>isProcessed := False, parsedContent := failure_sentinel\<rparr>) \<and>
   chatWithDocument (mock_env reachable_blob) (Some 1) 0 ''What is it?'' failed_state
     = Ok (''Based on the document content, here is the answer to your question...'', 0.85)"
proof -
  have h2: "userId uploaded_document = 1" "\<not> isProcessed uploaded_document"
    "parsedContent uploaded_document = []"
    by (simp_all add: uploaded_document_def)
  have g: "getDocumentForProcessing 0 failed_state
     = Some (uploaded_document\<lparr>isProcessed := False, parsedContent := failure_sentinel\<rparr>)"
    using failed_db_get by (simp add: getDocumentForProcessing_def)
  have h2': "userId (uploaded_document\<lparr>isProcessed := False, parsedContent := failure_sentinel\<rparr>) = 1"
    by (simp add: uploaded_document_def)
  show ?thesis
    using chat_needs_no_processing [OF uploaded_get h2(1),
        of "mock_env reachable_blob" "''What is it?''" reachable_blob, THEN conjunct2]
      chat_needs_no_processing [OF g h2',
        of "mock_env reachable_blob" "''What is it?''" reachable_blob, THEN conjunct2]
      uploaded_get h2 g
    by simp
qed

end
